theory Spec2Isabelle
  imports Main "HOL-Library.AList"
begin

section \<open>JavaScript strings\<close>

text \<open>
  A JavaScript string is modelled as a \<open>string\<close> whose characters are code units
  below 256 (the Latin-1 range). On that range \<open>toLowerCase\<close> maps each code unit to
  one code unit, the white space of \<open>\s\<close> and of \<open>trim\<close> is the seven code units
  below, and a case-insensitive regular expression made of ASCII lower-case letters
  matches exactly the text whose lower-case form is the pattern.
\<close>

definition toLowerChar :: "char \<Rightarrow> char" where
  "toLowerChar c =
     (let n = (of_char c :: nat)
      in if (65 \<le> n \<and> n \<le> 90) \<or> (192 \<le> n \<and> n \<le> 222 \<and> n \<noteq> 215)
         then char_of (n + 32) else c)"

definition toLowerCase :: "string \<Rightarrow> string" where
  "toLowerCase s = map toLowerChar s"

definition isSpace :: "char \<Rightarrow> bool" where
  "isSpace c = ((of_char c :: nat) \<in> set [9, 10, 11, 12, 13, 32, 160])"

definition trim :: "string \<Rightarrow> string" where
  "trim s = rev (dropWhile isSpace (rev (dropWhile isSpace s)))"

text \<open>\<open>startsWith p s\<close>: \<open>p\<close> is a prefix of \<open>s\<close>.\<close>

fun startsWith :: "string \<Rightarrow> string \<Rightarrow> bool" where
  "startsWith [] s = True"
| "startsWith (p # ps) [] = False"
| "startsWith (p # ps) (c # cs) = (p = c \<and> startsWith ps cs)"

text \<open>\<^verbatim>\<open>s.includes(p)\<close>.\<close>

fun includesStr :: "string \<Rightarrow> string \<Rightarrow> bool" where
  "includesStr [] p = (p = [])"
| "includesStr (c # cs) p = (startsWith p (c # cs) \<or> includesStr cs p)"

section \<open>The asset cache: fingerprints\<close>

text \<open>
  \<^verbatim>\<open>generateCacheKey(emotion, customDescription)\<close> of
  \<^verbatim>\<open>CustomCharacterGenerator\<close>. The digest comes from Node's \<^verbatim>\<open>crypto\<close>
  module, which is not part of the repository: \<open>md5hex\<close> stands for
  \<^verbatim>\<open>crypto.createHash('md5').update(s).digest('hex')\<close>.
\<close>

definition isLowerAlnum :: "char \<Rightarrow> bool" where
  "isLowerAlnum c =
     (let n = (of_char c :: nat) in (97 \<le> n \<and> n \<le> 122) \<or> (48 \<le> n \<and> n \<le> 57))"

text \<open>\<^verbatim>\<open>s.toLowerCase().replace(/[^a-z0-9]/g, '_')\<close>\<close>

definition normalizeKey :: "string \<Rightarrow> string" where
  "normalizeKey s = map (\<lambda>c. if isLowerAlnum c then c else CHR ''_'') (toLowerCase s)"

definition normalized :: "string \<Rightarrow> string \<Rightarrow> string" where
  "normalized emotion customDescription = normalizeKey (emotion @ ''_'' @ customDescription)"

definition generateCacheKey :: "(string \<Rightarrow> string) \<Rightarrow> string \<Rightarrow> string \<Rightarrow> string" where
  "generateCacheKey md5hex emotion customDescription =
     (let n = normalized emotion customDescription;
          hash = take 8 (md5hex n)
      in take 30 n @ ''_'' @ hash)"

section \<open>The asset cache: parsing a request\<close>

text \<open>\<^verbatim>\<open>emotionKeywords\<close>, in the order of the object literal.\<close>

definition emotionKeywords :: "(string \<times> string list) list" where
  "emotionKeywords =
     [(''joy'', [''happy'', ''joyful'', ''cheerful'', ''excited'', ''elated'']),
      (''anger'', [''angry'', ''mad'', ''furious'', ''rage'', ''upset'']),
      (''fear'', [''scared'', ''afraid'', ''fearful'', ''terrified'', ''nervous'']),
      (''disgust'', [''disgusted'', ''gross'', ''ew'', ''yuck'', ''repulsed'']),
      (''anxiety'', [''anxious'', ''worried'', ''stressed'', ''nervous'', ''tense'']),
      (''sadness'', [''sad'', ''crying'', ''depressed'', ''melancholy'', ''blue'']),
      (''calm'', [''calm'', ''peaceful'', ''serene'', ''relaxed'', ''zen''])]"

text \<open>
  \<^verbatim>\<open>s.replace(new RegExp(keyword, 'gi'), '')\<close> for a keyword of lower-case
  letters: scanning from the left, every match is dropped and the scan goes on behind it.
\<close>

fun removeAllCI :: "string \<Rightarrow> string \<Rightarrow> string" where
  "removeAllCI kw [] = []"
| "removeAllCI kw (c # cs) =
     (if kw \<noteq> [] \<and> startsWith kw (toLowerCase (c # cs))
      then removeAllCI kw (drop (length kw - 1) cs)
      else c # removeAllCI kw cs)"

text \<open>
  The inner loop over the keywords of one emotion and the outer loop over the emotions.
  The state is the pair of \<^verbatim>\<open>detectedEmotion\<close> and \<^verbatim>\<open>customDescription\<close>.
\<close>

fun keywordLoop :: "string \<Rightarrow> string \<Rightarrow> string list \<Rightarrow> string \<times> string \<Rightarrow> string \<times> string" where
  "keywordLoop userPrompt emotion [] st = st"
| "keywordLoop userPrompt emotion (keyword # rest) st =
     (if includesStr (toLowerCase userPrompt) keyword
      then (emotion, trim (removeAllCI keyword userPrompt))
      else keywordLoop userPrompt emotion rest st)"

fun emotionLoop :: "string \<Rightarrow> (string \<times> string list) list \<Rightarrow> string \<times> string \<Rightarrow> string \<times> string" where
  "emotionLoop userPrompt [] st = st"
| "emotionLoop userPrompt ((emotion, keywords) # rest) st =
     (let st' = keywordLoop userPrompt emotion keywords st
      in if fst st' \<noteq> ''neutral'' then st' else emotionLoop userPrompt rest st')"

text \<open>
  \<^verbatim>\<open>.replace(/^(a|an|the)\s+/i, '')\<close>: the alternatives are tried in their order, and
  the greedy \<^verbatim>\<open>\s+\<close> takes all the white space behind the article.
\<close>

definition matchesArticle :: "string \<Rightarrow> string \<Rightarrow> bool" where
  "matchesArticle article s =
     (startsWith article (toLowerCase s) \<and>
      (case drop (length article) s of [] \<Rightarrow> False | c # _ \<Rightarrow> isSpace c))"

definition stripArticle :: "string \<Rightarrow> string" where
  "stripArticle s =
     (if matchesArticle ''a'' s then dropWhile isSpace (drop 1 s)
      else if matchesArticle ''an'' s then dropWhile isSpace (drop 2 s)
      else if matchesArticle ''the'' s then dropWhile isSpace (drop 3 s)
      else s)"

text \<open>\<^verbatim>\<open>.replace(/\s+/g, ' ')\<close>\<close>

function collapseSpaces :: "string \<Rightarrow> string" where
  "collapseSpaces [] = []"
| "collapseSpaces (c # cs) =
     (if isSpace c then CHR '' '' # collapseSpaces (dropWhile isSpace cs)
      else c # collapseSpaces cs)"
  by pat_completeness auto
termination
  by (relation "measure length") (auto simp: length_dropWhile_le less_Suc_eq_le)

definition cleanDescription :: "string \<Rightarrow> string" where
  "cleanDescription d = trim (collapseSpaces (stripArticle d))"

record parsed_request =
  req_emotion :: string
  req_customDescription :: string

text \<open>The detection loops, started with \<^verbatim>\<open>'neutral'\<close> and the prompt itself.\<close>

definition detectEmotion :: "string \<Rightarrow> string \<times> string" where
  "detectEmotion userPrompt = emotionLoop userPrompt emotionKeywords (''neutral'', userPrompt)"

definition parseUserRequest :: "string \<Rightarrow> parsed_request" where
  "parseUserRequest userPrompt =
     (let st = detectEmotion userPrompt;
          cleaned = cleanDescription (snd st)
      in \<lparr> req_emotion = fst st,
           req_customDescription = (if cleaned = [] then ''character'' else cleaned) \<rparr>)"

section \<open>The asset cache: manifest, lookup and generation\<close>

text \<open>
  The own property names of \<^verbatim>\<open>Object.prototype\<close>. A table written as an object
  literal answers a lookup \<^verbatim>\<open>table[key]\<close> for these keys with an inherited value
  (a function, or the prototype itself for \<^verbatim>\<open>__proto__\<close>) that is truthy.
\<close>

definition objectPrototypeKeys :: "string list" where
  "objectPrototypeKeys =
     [''constructor'', ''__defineGetter__'', ''__defineSetter__'', ''hasOwnProperty'',
      ''__lookupGetter__'', ''__lookupSetter__'', ''isPrototypeOf'', ''propertyIsEnumerable'',
      ''toString'', ''valueOf'', ''__proto__'', ''toLocaleString'']"

record manifest_entry =
  entry_emotion :: string
  entry_customDescription :: string
  entry_prompt :: string
  entry_filename :: string
  entry_generatedAt :: string
  entry_videoUrl :: string

text \<open>
  The generator's state once \<^verbatim>\<open>initializeCache\<close> has loaded the manifest: the
  manifest in memory, the manifest as last written to \<^verbatim>\<open>manifest.json\<close>, and the names
  of the files present in the cache directory. A cache key ends in an underscore and
  eight hexadecimal digits, so it is never a name that the manifest object inherits.
\<close>

record cache_state =
  manifest :: "string \<rightharpoonup> manifest_entry"
  persisted :: "string \<rightharpoonup> manifest_entry"
  files :: "string set"

text \<open>\<^verbatim>\<open>emotionPrompts\<close> of \<^verbatim>\<open>buildCustomPrompt\<close>: base and animation per emotion.\<close>

definition emotionPrompts :: "(string \<times> string \<times> string) list" where
  "emotionPrompts =
     [(''joy'', ''golden yellow character, joyful and happy'',
        ''bouncing cheerfully, mouth opening and closing as if talking happily, continuous speaking movements''),
      (''anger'', ''bright red character, angry and furious'',
        ''shaking with rage, mouth opening aggressively as if yelling, steam effects, continuous angry talking''),
      (''fear'', ''deep purple character, fearful and nervous'',
        ''trembling nervously, mouth quivering as if speaking fearfully, continuous worried talking''),
      (''disgust'', ''bright green character, disgusted and repulsed'',
        ''recoiling with disgust, mouth twisted as if complaining, continuous disgusted talking''),
      (''anxiety'', ''bright orange character, anxious and worried'',
        ''fidgeting constantly, mouth moving rapidly as if rambling nervously, continuous anxious talking''),
      (''sadness'', ''deep blue character, sad and melancholy'',
        ''drooping sadly, mouth turned down as if crying softly, continuous sad talking''),
      (''calm'', ''soft cyan character, peaceful and serene'',
        ''floating peacefully, mouth moving steadily as if speaking calmly, continuous gentle talking''),
      (''neutral'', ''translucent character with soft glow'',
        ''gentle floating, mouth moving as if having a conversation, continuous talking'')]"

text \<open>
  \<^verbatim>\<open>emotionPrompts[emotion] || emotionPrompts.neutral\<close>. For an inherited key the
  value found has neither \<^verbatim>\<open>base\<close> nor \<^verbatim>\<open>animation\<close>, and the template prints
  \<^verbatim>\<open>undefined\<close> for both.
\<close>

definition emotionConfig :: "string \<Rightarrow> string \<times> string" where
  "emotionConfig emotion =
     (case map_of emotionPrompts emotion of
        Some cfg \<Rightarrow> cfg
      | None \<Rightarrow>
          if emotion \<in> set objectPrototypeKeys then (''undefined'', ''undefined'')
          else (''translucent character with soft glow'',
                ''gentle floating, mouth moving as if having a conversation, continuous talking''))"

definition buildCustomPrompt :: "string \<Rightarrow> string \<Rightarrow> string" where
  "buildCustomPrompt emotion customDescription =
     (let cfg = emotionConfig emotion
      in ''The '' @ fst cfg @ '' dressed as a '' @ customDescription @ '', '' @ snd cfg @
         '', maintaining the cute ghost-like shape, 8 seconds'')"

definition variantPath :: "string \<Rightarrow> string" where
  "variantPath filename = ''/videos/custom_variants/'' @ filename"

text \<open>
  \<^verbatim>\<open>saveManifest\<close>: \<open>err\<close> is the message of the error \<^verbatim>\<open>fs.writeFile\<close> throws, if
  it throws.
\<close>

definition saveManifest :: "string option \<Rightarrow> cache_state \<Rightarrow> string + cache_state" where
  "saveManifest err st =
     (case err of Some msg \<Rightarrow> Inl msg | None \<Rightarrow> Inr (st\<lparr>persisted := manifest st\<rparr>))"

text \<open>
  \<^verbatim>\<open>checkCache\<close>. A hit carries the path and the entry; \<open>None\<close> is
  \<^verbatim>\<open>{ exists: false }\<close>. \<^verbatim>\<open>fs.access\<close> succeeds when the file is in the directory.
  An entry whose file is missing is deleted, and the manifest is saved; an error of that
  save leaves the function as an exception (\<open>Inl\<close>).
\<close>

definition checkCache ::
  "(string \<Rightarrow> string) \<Rightarrow> string option \<Rightarrow> string \<Rightarrow> string \<Rightarrow> cache_state \<Rightarrow>
     (string + (string \<times> manifest_entry) option) \<times> cache_state" where
  "checkCache md5hex saveErr emotion customDescription st =
     (let cacheKey = generateCacheKey md5hex emotion customDescription
      in case manifest st cacheKey of
           None \<Rightarrow> (Inr None, st)
         | Some ent \<Rightarrow>
             if entry_filename ent \<in> files st
             then (Inr (Some (variantPath (entry_filename ent), ent)), st)
             else
               (let st' = st\<lparr>manifest := (manifest st)(cacheKey := None)\<rparr>
                in case saveManifest saveErr st' of
                     Inl msg \<Rightarrow> (Inl msg, st')
                   | Inr st'' \<Rightarrow> (Inr None, st'')))"

text \<open>
  What the collaborators answer during one call of \<^verbatim>\<open>generateVariant\<close>: the image
  step (\<^verbatim>\<open>generateCharacterImage\<close> always yields a path; reading that file may throw),
  the video provider raced against the two-minute timeout, the clock, \<^verbatim>\<open>curl\<close> and
  the write of the manifest. An error is given by its message.
\<close>

record api_result =
  data_video_url :: "string option"
  video_url :: "string option"
  flat_video_url :: "string option"
  plain_url :: "string option"
  output_video_url :: "string option"

datatype api_outcome = ApiRejected string | ApiResolved "api_result option"

record gen_env =
  env_evictSaveError :: "string option"
  env_imageError :: "string option"
  env_api :: api_outcome
  env_isoTime :: string
  env_curlError :: "string option"
  env_generatedAt :: string
  env_saveError :: "string option"

text \<open>A property read is truthy when the property is there and is not the empty string.\<close>

definition truthy :: "string option \<Rightarrow> bool" where
  "truthy v = (case v of None \<Rightarrow> False | Some s \<Rightarrow> s \<noteq> [])"

text \<open>The chain of response shapes that \<^verbatim>\<open>generateVariant\<close> accepts.\<close>

definition extractVideoUrl :: "api_result option \<Rightarrow> string option" where
  "extractVideoUrl result =
     (case result of
        None \<Rightarrow> None
      | Some r \<Rightarrow>
          if truthy (data_video_url r) then data_video_url r
          else if truthy (video_url r) then video_url r
          else if truthy (flat_video_url r) then flat_video_url r
          else if truthy (plain_url r) then plain_url r
          else if truthy (output_video_url r) then output_video_url r
          else None)"

text \<open>\<^verbatim>\<open>new Date().toISOString().replace(/[:.]/g, '-')\<close>\<close>

definition fileTimestamp :: "string \<Rightarrow> string" where
  "fileTimestamp isoTime =
     map (\<lambda>c. if c = CHR '':'' \<or> c = CHR ''.'' then CHR ''-'' else c) isoTime"

record generation_result =
  gen_success :: bool
  gen_path :: "string option"
  gen_metadata :: "manifest_entry option"
  gen_error :: "string option"

text \<open>\<^verbatim>\<open>error.message || 'Failed to generate video'\<close>\<close>

definition generationFailed :: "string \<Rightarrow> generation_result" where
  "generationFailed msg =
     \<lparr> gen_success = False, gen_path = None, gen_metadata = None,
       gen_error = Some (if msg = [] then ''Failed to generate video'' else msg) \<rparr>"

text \<open>
  \<^verbatim>\<open>generateVariant\<close>. Every error inside is caught and turned into a result with
  \<^verbatim>\<open>success: false\<close>. When the download worked the file is in the directory; the
  manifest is updated in memory before it is saved, so a failed save leaves the new
  entry in memory.
\<close>

definition generateVariant ::
  "(string \<Rightarrow> string) \<Rightarrow> gen_env \<Rightarrow> string \<Rightarrow> string \<Rightarrow> cache_state \<Rightarrow>
     generation_result \<times> cache_state" where
  "generateVariant md5hex env emotion customDescription st =
     (let cacheKey = generateCacheKey md5hex emotion customDescription;
          prompt = buildCustomPrompt emotion customDescription
      in case env_imageError env of
           Some msg \<Rightarrow> (generationFailed msg, st)
         | None \<Rightarrow>
            (case env_api env of
               ApiRejected msg \<Rightarrow> (generationFailed msg, st)
             | ApiResolved result \<Rightarrow>
                (case extractVideoUrl result of
                   None \<Rightarrow> (generationFailed ''No video URL in response'', st)
                 | Some videoUrl \<Rightarrow>
                    (let filename = cacheKey @ ''_'' @ fileTimestamp (env_isoTime env) @ ''.mp4''
                     in case env_curlError env of
                          Some msg \<Rightarrow> (generationFailed msg, st)
                        | None \<Rightarrow>
                           (let ent = \<lparr> entry_emotion = emotion,
                                        entry_customDescription = customDescription,
                                        entry_prompt = prompt,
                                        entry_filename = filename,
                                        entry_generatedAt = env_generatedAt env,
                                        entry_videoUrl = videoUrl \<rparr>;
                                st' = st\<lparr>files := insert filename (files st),
                                         manifest := (manifest st)(cacheKey \<mapsto> ent)\<rparr>
                            in case saveManifest (env_saveError env) st' of
                                 Inl msg \<Rightarrow> (generationFailed msg, st')
                               | Inr st'' \<Rightarrow>
                                   (\<lparr> gen_success = True,
                                      gen_path = Some (variantPath filename),
                                      gen_metadata = Some ent,
                                      gen_error = None \<rparr>, st''))))))"

record variant_result =
  res_success :: bool
  res_cached :: bool
  res_path :: "string option"
  res_metadata :: "manifest_entry option"
  res_error :: "string option"

definition cachedResult :: "string \<times> manifest_entry \<Rightarrow> variant_result" where
  "cachedResult hit =
     \<lparr> res_success = True, res_cached = True, res_path = Some (fst hit),
       res_metadata = Some (snd hit), res_error = None \<rparr>"

definition generatedResult :: "generation_result \<Rightarrow> variant_result" where
  "generatedResult r =
     \<lparr> res_success = gen_success r, res_cached = False, res_path = gen_path r,
       res_metadata = gen_metadata r, res_error = gen_error r \<rparr>"

text \<open>\<^verbatim>\<open>getOrCreateVariant\<close>: the cache first, generation on a miss.\<close>

definition getOrCreateVariant ::
  "(string \<Rightarrow> string) \<Rightarrow> gen_env \<Rightarrow> string \<Rightarrow> string \<Rightarrow> cache_state \<Rightarrow>
     (string + variant_result) \<times> cache_state" where
  "getOrCreateVariant md5hex env emotion customDescription st =
     (case checkCache md5hex (env_evictSaveError env) emotion customDescription st of
        (Inl msg, st') \<Rightarrow> (Inl msg, st')
      | (Inr (Some hit), st') \<Rightarrow> (Inr (cachedResult hit), st')
      | (Inr None, st') \<Rightarrow>
          (case generateVariant md5hex env emotion customDescription st' of
             (r, st'') \<Rightarrow> (Inr (generatedResult r), st'')))"

section \<open>The asset cache: calls that overlap\<close>

text \<open>
  \<^verbatim>\<open>getOrCreateVariant\<close> is asynchronous: while a call waits for the file system or
  for a provider, the event loop runs other calls. A call reads the manifest when it
  looks the fingerprint up, and writes it when its generation is complete; in between it
  only waits. So a call is in one of four stages, and a step of the scheduler lets one
  call do its lookup (\<^verbatim>\<open>await this.checkCache(...)\<close>) or finish its generation
  (\<^verbatim>\<open>await this.generateVariant(...)\<close>). \<open>generations\<close> counts the invocations of
  \<^verbatim>\<open>generateVariant\<close>.
\<close>

datatype call =
    NotStarted string string
  | Generating string string
  | Returned variant_result
  | Thrown string

record system =
  cache :: cache_state
  calls :: "call list"
  generations :: nat

definition stepCall :: "(string \<Rightarrow> string) \<Rightarrow> system \<Rightarrow> nat \<times> gen_env \<Rightarrow> system" where
  "stepCall md5hex sys ie =
     (let i = fst ie; env = snd ie
      in if length (calls sys) \<le> i then sys
         else
           (case calls sys ! i of
              NotStarted e d \<Rightarrow>
                (case checkCache md5hex (env_evictSaveError env) e d (cache sys) of
                   (Inl msg, c) \<Rightarrow> sys\<lparr>cache := c, calls := (calls sys)[i := Thrown msg]\<rparr>
                 | (Inr (Some hit), c) \<Rightarrow>
                     sys\<lparr>cache := c, calls := (calls sys)[i := Returned (cachedResult hit)]\<rparr>
                 | (Inr None, c) \<Rightarrow>
                     sys\<lparr>cache := c, calls := (calls sys)[i := Generating e d]\<rparr>)
            | Generating e d \<Rightarrow>
                (case generateVariant md5hex env e d (cache sys) of
                   (r, c) \<Rightarrow>
                     sys\<lparr>cache := c, calls := (calls sys)[i := Returned (generatedResult r)],
                         generations := Suc (generations sys)\<rparr>)
            | Returned r \<Rightarrow> sys
            | Thrown msg \<Rightarrow> sys))"

definition runCalls :: "(string \<Rightarrow> string) \<Rightarrow> (nat \<times> gen_env) list \<Rightarrow> system \<Rightarrow> system" where
  "runCalls md5hex schedule sys = foldl (stepCall md5hex) sys schedule"

text \<open>
  Sample inputs for the evaluations below: a digest function (the facts proved here hold
  for every digest function), a world in which every collaborator succeeds, and an empty
  cache.
\<close>

definition exampleDigest :: "string \<Rightarrow> string" where
  "exampleDigest s = ''0f1e2d3c4b5a69788796a5b4c3d2e1f0''"

definition exampleEnv :: "string \<Rightarrow> gen_env" where
  "exampleEnv isoTime =
     \<lparr> env_evictSaveError = None, env_imageError = None,
       env_api = ApiResolved (Some \<lparr> data_video_url = Some ''https://v.example/clip.mp4'',
                                    video_url = None, flat_video_url = None,
                                    plain_url = None, output_video_url = None \<rparr>),
       env_isoTime = isoTime, env_curlError = None, env_generatedAt = isoTime,
       env_saveError = None \<rparr>"

definition emptyCache :: cache_state where
  "emptyCache = \<lparr> manifest = Map.empty, persisted = Map.empty, files = {} \<rparr>"

definition twoCalls :: system where
  "twoCalls = \<lparr> cache = emptyCache,
       calls = [NotStarted ''joy'' ''pirate'', NotStarted ''joy'' ''pirate''], generations = 0 \<rparr>"

section \<open>The emotion resolver\<close>

record video =
  video_filename :: string
  video_path :: string
  video_emotion :: string
  video_timestamp :: int

text \<open>
  \<^verbatim>\<open>VideoEmotionMapper\<close>: the index from emotion to videos (a \<^verbatim>\<open>Map\<close>), the list of
  all videos, most recent first, and the flag that \<^verbatim>\<open>initialize\<close> sets.
\<close>

record mapper =
  emotionVideoMap :: "string \<rightharpoonup> video list"
  availableVideos :: "video list"
  initialized :: bool

text \<open>\<^verbatim>\<open>buildEmotionMap\<close>: every video is appended to the list of its emotion.\<close>

definition buildEmotionMap :: "video list \<Rightarrow> (string \<rightharpoonup> video list)" where
  "buildEmotionMap vs =
     foldl (\<lambda>m v. m(video_emotion v \<mapsto>
                      (case m (video_emotion v) of None \<Rightarrow> [] | Some l \<Rightarrow> l) @ [v]))
       Map.empty vs"

text \<open>\<^verbatim>\<open>fallbackMap\<close> of \<^verbatim>\<open>getFallbackVideos\<close>, an object literal.\<close>

definition fallbackMap :: "(string \<times> string list) list" where
  "fallbackMap =
     [(''anger'', [''disgust'', ''fear'', ''neutral'']),
      (''anxiety'', [''fear'', ''sadness'', ''neutral'']),
      (''calm'', [''neutral'', ''happiness'', ''joy'']),
      (''disgust'', [''anger'', ''fear'', ''neutral'']),
      (''excitement'', [''happiness'', ''joy'', ''surprise'']),
      (''fear'', [''anxiety'', ''sadness'', ''neutral'']),
      (''happiness'', [''joy'', ''excitement'', ''neutral'']),
      (''joy'', [''happiness'', ''excitement'', ''surprise'']),
      (''love'', [''happiness'', ''joy'', ''neutral'']),
      (''neutral'', [''calm'', ''happiness'']),
      (''sadness'', [''fear'', ''anxiety'', ''neutral'']),
      (''surprise'', [''excitement'', ''happiness'', ''neutral''])]"

text \<open>
  The loop over the fallback emotions: the videos of the first one that has any.
\<close>

fun firstAvailable :: "(string \<rightharpoonup> video list) \<Rightarrow> string list \<Rightarrow> video list option" where
  "firstAvailable idx [] = None"
| "firstAvailable idx (fallback # rest) =
     (case idx fallback of
        None \<Rightarrow> firstAvailable idx rest
      | Some [] \<Rightarrow> firstAvailable idx rest
      | Some (v # vs) \<Rightarrow> Some (v # vs))"

definition walkFallbacks :: "mapper \<Rightarrow> string list \<Rightarrow> video list" where
  "walkFallbacks m fallbacks =
     (case firstAvailable (emotionVideoMap m) fallbacks of
        Some videos \<Rightarrow> videos
      | None \<Rightarrow> take 1 (availableVideos m))"

text \<open>
  \<^verbatim>\<open>getFallbackVideos\<close>. \<^verbatim>\<open>fallbackMap[emotion] || ['neutral']\<close> finds the list of an
  emotion of the table, and \<^verbatim>\<open>['neutral']\<close> for a key that is nowhere; for a key that
  the literal inherits from \<^verbatim>\<open>Object.prototype\<close> it finds the inherited value, which is
  truthy and not iterable, and the \<^verbatim>\<open>for ... of\<close> loop throws a \<^verbatim>\<open>TypeError\<close>.
\<close>

definition getFallbackVideos :: "mapper \<Rightarrow> string \<Rightarrow> string + video list" where
  "getFallbackVideos m emotion =
     (case map_of fallbackMap emotion of
        Some fallbacks \<Rightarrow> Inr (walkFallbacks m fallbacks)
      | None \<Rightarrow>
          if emotion \<in> set objectPrototypeKeys then Inl ''fallbacks is not iterable''
          else Inr (walkFallbacks m [''neutral'']))"

text \<open>
  \<^verbatim>\<open>Math.floor(Math.random() * n)\<close> is some index below \<open>n\<close>; \<open>rnd\<close> is the source of
  randomness.
\<close>

definition randomIndex :: "nat \<Rightarrow> nat \<Rightarrow> nat" where
  "randomIndex rnd n = rnd mod n"

text \<open>
  The end of \<^verbatim>\<open>getVideoForEmotion\<close>: \<^verbatim>\<open>null\<close> for no videos, the first video when
  \<^verbatim>\<open>preferRecent\<close> is set, a random one otherwise.
\<close>

definition pickVideo :: "bool \<Rightarrow> nat \<Rightarrow> video list \<Rightarrow> video option" where
  "pickVideo preferRecent rnd videos =
     (case videos of
        [] \<Rightarrow> None
      | v # vs \<Rightarrow>
          if preferRecent then Some v
          else Some ((v # vs) ! randomIndex rnd (length (v # vs))))"

text \<open>
  \<^verbatim>\<open>getVideoForEmotion(emotion, preferRecent)\<close>: \<open>Inr None\<close> is \<^verbatim>\<open>null\<close>, \<open>Inl\<close> an
  exception.
\<close>

definition getVideoForEmotion :: "mapper \<Rightarrow> string \<Rightarrow> bool \<Rightarrow> nat \<Rightarrow> string + video option" where
  "getVideoForEmotion m emotion preferRecent rnd =
     (if \<not> initialized m then Inr None
      else
        (let emotion' = toLowerCase emotion;
             found = (case emotionVideoMap m emotion' of
                        None \<Rightarrow> getFallbackVideos m emotion'
                      | Some [] \<Rightarrow> getFallbackVideos m emotion'
                      | Some (v # vs) \<Rightarrow> Inr (v # vs))
         in case found of
              Inl err \<Rightarrow> Inl err
            | Inr videos \<Rightarrow> Inr (pickVideo preferRecent rnd videos)))"

text \<open>A mapper that has indexed one video, for the neutral emotion.\<close>

definition neutralVideo :: video where
  "neutralVideo =
     \<lparr> video_filename = ''neutral_20240901_100000.mp4'',
       video_path = ''/srv/generated_files/neutral_20240901_100000.mp4'',
       video_emotion = ''neutral'', video_timestamp = 1725184800000 \<rparr>"

definition exampleMapper :: mapper where
  "exampleMapper =
     \<lparr> emotionVideoMap = buildEmotionMap [neutralVideo], availableVideos = [neutralVideo],
       initialized = True \<rparr>"

text \<open>
  The fallback list that the table yields for an emotion, for stating what
  \<^verbatim>\<open>getVideoForEmotion\<close> resolves to: the emotion's own list, or \<^verbatim>\<open>['neutral']\<close>.
\<close>

definition fallbacksOf :: "string \<Rightarrow> string list" where
  "fallbacksOf emotion =
     (case map_of fallbackMap emotion of Some fallbacks \<Rightarrow> fallbacks | None \<Rightarrow> [''neutral''])"

section \<open>The server: detecting requests and emotions\<close>

text \<open>
  \<^verbatim>\<open>s.split(sep)\<close> for a separator that is not empty: \<open>cur\<close> is the part read so far,
  reversed.
\<close>

function splitAux :: "string \<Rightarrow> string \<Rightarrow> string \<Rightarrow> string list" where
  "splitAux sep cur [] = [rev cur]"
| "splitAux sep cur (c # cs) =
     (if sep \<noteq> [] \<and> startsWith sep (c # cs)
      then rev cur # splitAux sep [] (drop (length sep - 1) cs)
      else splitAux sep (c # cur) cs)"
  by pat_completeness auto
termination
  by (relation "measure (\<lambda>(sep, cur, s). length s)") auto

definition splitOn :: "string \<Rightarrow> string \<Rightarrow> string list" where
  "splitOn sep s = splitAux sep [] s"

text \<open>\<^verbatim>\<open>words.join(' ')\<close>\<close>

fun joinWords :: "string list \<Rightarrow> string" where
  "joinWords [] = []"
| "joinWords [w] = w"
| "joinWords (w # ws) = w @ '' '' @ joinWords ws"

definition customTriggers :: "string list" where
  "customTriggers =
     [''be a'', ''become a'', ''turn into'', ''transform into'',
      ''can you be'', ''could you be'', ''please be'',
      ''show me a'', ''let me see a'', ''i want a'',
      ''be like a'', ''act like a'']"

definition stopWords :: "string list" where
  "stopWords =
     [''and'', ''tell'', ''show'', ''me'', ''the'', ''a'', ''an'', ''that'', ''can'', ''will'',
      ''would'', ''should'', ''please'', ''now'', ''today'', ''tomorrow'', ''about'', ''what'',
      ''how'', ''why'', ''when'', ''where'']"

text \<open>
  The loop over the first four words, by the list of the indices still to visit; it
  ends early (\<^verbatim>\<open>break\<close>) at the second word kept, or at a kept word that a stop word
  follows.
\<close>

fun wordLoop :: "string list \<Rightarrow> nat list \<Rightarrow> string list \<Rightarrow> string list" where
  "wordLoop ws [] characterWords = characterWords"
| "wordLoop ws (i # rest) characterWords =
     (let word = toLowerCase (ws ! i)
      in if word \<notin> set stopWords \<and> 1 < length word
         then
           (let characterWords' = characterWords @ [word]
            in if 2 \<le> length characterWords' \<or>
                  (1 \<le> length characterWords' \<and> i + 1 < length ws \<and> ws ! (i + 1) \<in> set stopWords)
               then characterWords'
               else wordLoop ws rest characterWords')
         else wordLoop ws rest characterWords)"

text \<open>The description taken from \<^verbatim>\<open>parts[1]\<close>, the text behind the trigger.\<close>

definition describeCharacter :: "string \<Rightarrow> string" where
  "describeCharacter part =
     (let characterDescription = trim (filter (\<lambda>c. c \<notin> set ''?!.,;:'') (trim part));
          ws = splitOn '' '' characterDescription;
          characterWords = wordLoop ws [0 ..< min 4 (length ws)] []
      in if characterWords \<noteq> [] then joinWords characterWords
         else (case ws of [] \<Rightarrow> ''character'' | w # _ \<Rightarrow> if w = [] then ''character'' else w))"

fun triggerLoop :: "string \<Rightarrow> string list \<Rightarrow> string \<Rightarrow> string" where
  "triggerLoop text [] characterDescription = characterDescription"
| "triggerLoop text (trigger # rest) characterDescription =
     (if includesStr text trigger
      then (case splitOn trigger text of
              p0 # p1 # _ \<Rightarrow> describeCharacter p1
            | _ \<Rightarrow> triggerLoop text rest characterDescription)
      else triggerLoop text rest characterDescription)"

text \<open>\<^verbatim>\<open>detectCustomCharacterRequest\<close>: \<open>None\<close> is \<^verbatim>\<open>null\<close>.\<close>

definition detectCustomCharacterRequest :: "string \<Rightarrow> string option" where
  "detectCustomCharacterRequest userInput =
     (let text = toLowerCase userInput
      in if \<not> list_ex (includesStr text) customTriggers then None
         else Some (triggerLoop text customTriggers text))"

text \<open>
  \<^verbatim>\<open>emotionPatterns\<close> of \<^verbatim>\<open>detectEmotionFromText\<close>, in the order of the literal. Two
  patterns are written in pieces: the twelfth of sadness, and the last of excitement,
  which holds an apostrophe.
\<close>

definition emotionPatterns :: "(string \<times> string list) list" where
  "emotionPatterns =
     [(''anger'', [''angry'', ''mad'', ''furious'', ''rage'', ''pissed'', ''irritated'', ''annoyed'',
         ''frustrated'', ''upset'', ''hate'', ''disgusting'', ''terrible'', ''awful'', ''stupid'',
         ''damn'', ''shit'', ''fuck'']),
      (''sadness'', [''sad'', ''crying'', ''depressed'', ''miserable'', ''heartbroken'', ''grief'',
         ''sorrow'', ''melancholy'', ''blue'', ''down'', ''disappointed'', ''sorr'' @ ''y'',
         ''unfortunately'', ''tragic'', ''loss'']),
      (''happiness'', [''happy'', ''joy'', ''joyful'', ''cheerful'', ''delighted'', ''pleased'',
         ''glad'', ''content'', ''satisfied'', ''great'', ''wonderful'', ''amazing'', ''fantastic'',
         ''awesome'', ''excellent'', ''perfect'', ''love'', ''smile'', ''laugh'']),
      (''fear'', [''afraid'', ''scared'', ''terrified'', ''frightened'', ''nervous'', ''worried'',
         ''anxious'', ''panic'', ''dread'', ''horror'', ''concern'', ''stress'']),
      (''surprise'', [''wow'', ''omg'', ''whoa'', ''incredible'', ''unbelievable'', ''shocking'',
         ''amazing'', ''astonishing'', ''unexpected'', ''sudden'', ''surprise'']),
      (''disgust'', [''disgusting'', ''gross'', ''yuck'', ''eww'', ''revolting'', ''repulsive'',
         ''nasty'', ''sick'', ''vomit'']),
      (''excitement'', [''excited'', ''thrilled'', ''enthusiastic'', ''pumped'', ''energetic'',
         ''hyped'', ''eager'', ''fired up'', ''ready'', ''let'' @ [CHR 0x27] @ ''s go'']),
      (''calm'', [''calm'', ''peaceful'', ''relaxed'', ''serene'', ''tranquil'', ''quiet'', ''still'',
         ''zen'', ''meditation'', ''breathe'']),
      (''anxiety'', [''anxious'', ''stressed'', ''nervous'', ''worried'', ''tense'', ''overwhelmed'',
         ''panic'', ''restless'']),
      (''joy'', [''joy'', ''bliss'', ''elated'', ''euphoric'', ''ecstatic'', ''overjoyed'',
         ''celebration'', ''party'', ''fun''])]"

text \<open>
  \<^verbatim>\<open>(text.match(new RegExp(pattern, 'g')) || []).length\<close> for a pattern without special
  characters: the matches found from left to right, none overlapping another.
\<close>

function countMatches :: "string \<Rightarrow> string \<Rightarrow> nat" where
  "countMatches pattern [] = 0"
| "countMatches pattern (c # cs) =
     (if pattern \<noteq> [] \<and> startsWith pattern (c # cs)
      then Suc (countMatches pattern (drop (length pattern - 1) cs))
      else countMatches pattern cs)"
  by pat_completeness auto
termination
  by (relation "measure (\<lambda>(pattern, s). length s)") auto

definition emotionScore :: "string \<Rightarrow> string list \<Rightarrow> nat" where
  "emotionScore combinedText patterns = sum_list (map (\<lambda>p. countMatches p combinedText) patterns)"

text \<open>The second loop: the first emotion with the highest score, from \<^verbatim>\<open>('neutral', 0)\<close>.\<close>

fun maxLoop :: "(string \<times> nat) list \<Rightarrow> string \<times> nat \<Rightarrow> string \<times> nat" where
  "maxLoop [] best = best"
| "maxLoop ((emotion, score) # rest) best =
     (if snd best < score then maxLoop rest (emotion, score) else maxLoop rest best)"

definition detectEmotionFromText :: "string \<Rightarrow> string \<Rightarrow> string" where
  "detectEmotionFromText userInput aiResponse =
     (let combinedText = toLowerCase (userInput @ '' '' @ aiResponse);
          emotionScores = map (\<lambda>(emotion, patterns). (emotion, emotionScore combinedText patterns))
                            emotionPatterns;
          best = maxLoop emotionScores (''neutral'', 0)
      in if 0 < snd best then fst best else ''neutral'')"

definition resetCommands :: "string list" where
  "resetCommands =
     [''go back to normal'', ''be normal'', ''reset character'', ''default character'',
      ''stop being'', ''go back to default'']"

section \<open>The server: sessions and events\<close>

record turn =
  turn_role :: string
  turn_content :: string
  turn_timestamp :: nat

text \<open>
  A session as \<^verbatim>\<open>io.on('connection')\<close> creates it (the two stream fields stay
  \<^verbatim>\<open>null\<close> and are left out), and a connection (its socket is its id).
\<close>

record session =
  conversationHistory :: "turn list"
  isProcessing :: bool
  clientType :: string

record connection =
  connectedAt :: nat
  isHologram :: bool

record custom_video =
  cv_url :: "string option"
  cv_emotion :: string
  cv_description :: string
  cv_cached :: bool

text \<open>
  \<^verbatim>\<open>videoData\<close>: the custom video, or file name, URL and emotion of a standard video.
\<close>

datatype video_data =
    StandardVideo string string string
  | CustomVideo custom_video

record conversation_complete =
  cc_transcription :: string
  cc_response :: string
  cc_emotion :: string
  cc_audio :: "string option"
  cc_video :: "video_data option"
  cc_customCharacter :: "(string \<times> bool) option"
  cc_error :: "string option"

record display_content =
  dc_audio :: "string option"
  dc_video :: "video_data option"
  dc_text :: string
  dc_emotion :: string
  dc_customCharacter :: "(string \<times> bool) option"

text \<open>
  What the server emits. The timing fields of the bundles and the confidence of a
  transcription are left out.
\<close>

datatype event =
    Config
  | Status string
  | TranscriptionResult string
  | ConversationComplete conversation_complete
  | DisplayContent display_content
  | ErrorEvent string string
  | ResetComplete

text \<open>
  The state of the server: the three maps keyed by socket id (\<open>connections\<close> in the
  order of insertion, which is the order of a broadcast), the generator, the mapper, two
  counters, and the log of the events emitted, each with the socket it went to.
\<close>

record server =
  sessions :: "string \<rightharpoonup> session"
  connections :: "(string \<times> connection) list"
  activeCustomCharacters :: "string \<rightharpoonup> custom_video"
  generator :: cache_state
  videoMapper :: mapper
  conversationsProcessed :: nat
  videosStreamed :: nat
  emitted :: "(string \<times> event) list"

definition emit :: "string \<Rightarrow> event \<Rightarrow> server \<Rightarrow> server" where
  "emit sid ev st = st\<lparr>emitted := emitted st @ [(sid, ev)]\<rparr>"

text \<open>
  A handler holds the session object it looked up when it started. Writing to it changes
  the session of the map; after a disconnect nothing can reach the object any more.
\<close>

definition updateSession :: "string \<Rightarrow> (session \<Rightarrow> session) \<Rightarrow> server \<Rightarrow> server" where
  "updateSession sid f st =
     (case sessions st sid of
        None \<Rightarrow> st
      | Some s \<Rightarrow> st\<lparr>sessions := (sessions st)(sid \<mapsto> f s)\<rparr>)"

definition setProcessing :: "string \<Rightarrow> bool \<Rightarrow> server \<Rightarrow> server" where
  "setProcessing sid b st = updateSession sid (\<lambda>s. s\<lparr>isProcessing := b\<rparr>) st"

definition pushTurn :: "string \<Rightarrow> string \<Rightarrow> string \<Rightarrow> nat \<Rightarrow> server \<Rightarrow> server" where
  "pushTurn sid role content now st =
     updateSession sid
       (\<lambda>s. s\<lparr>conversationHistory := conversationHistory s @
                 [\<lparr> turn_role = role, turn_content = content, turn_timestamp = now \<rparr>]\<rparr>) st"

text \<open>
  \<^verbatim>\<open>Array.from(connections.values()).filter(c => c.isHologram)\<close>, and the
  \<^verbatim>\<open>forEach\<close> that emits to each of them.
\<close>

definition hologramConnections :: "server \<Rightarrow> string list" where
  "hologramConnections st = map fst (filter (\<lambda>(sid, c). isHologram c) (connections st))"

definition broadcast :: "event \<Rightarrow> server \<Rightarrow> server" where
  "broadcast ev st = st\<lparr>emitted := emitted st @ map (\<lambda>sid. (sid, ev)) (hologramConnections st)\<rparr>"

section \<open>The server: the handlers, stage by stage\<close>

text \<open>
  The handlers of \<^verbatim>\<open>audio-for-transcription\<close> and \<^verbatim>\<open>text-input\<close> are asynchronous:
  they give up control at each \<^verbatim>\<open>await\<close> of a collaborator, and the server handles
  other events until the collaborator answers. A handler is modelled by one function per
  stage, from one \<^verbatim>\<open>await\<close> to the next; a stage returns the new state and what the run
  waits for next, with the local variables it will need (\<open>None\<close> when the handler has
  returned).
\<close>

datatype source = FromAudio | FromText

record turn_locals =
  l_source :: source
  l_text :: string
  l_response :: string
  l_detectedEmotion :: string
  l_video :: "video option"
  l_customVideo :: "custom_video option"

datatype pending =
    AwaitTranscription
  | AwaitReply source string
  | AwaitCharacter source string string string string
  | AwaitAudio turn_locals

text \<open>The outer \<^verbatim>\<open>catch\<close> of both handlers.\<close>

definition handlerCatch :: "source \<Rightarrow> string \<Rightarrow> string \<Rightarrow> server \<Rightarrow> server" where
  "handlerCatch src sid msg st =
     (let st1 = setProcessing sid False st;
          st2 = emit sid (ErrorEvent (case src of FromAudio \<Rightarrow> ''Failed to process audio''
                                               | FromText \<Rightarrow> ''Failed to process text'') msg) st1
      in emit sid (Status ''idle'') st2)"

text \<open>
  What an event carries. Both handlers begin by destructuring their argument, which
  throws when the event came without one. \<^verbatim>\<open>text\<close> is a string, or is missing or
  otherwise falsy, or is a truthy value that is no string and has no \<^verbatim>\<open>trim\<close>.
  \<^verbatim>\<open>audio\<close> is something \<^verbatim>\<open>Buffer.from\<close> accepts, or something it rejects with the
  message given.
\<close>

datatype 'a payload = NoPayload | Payload 'a

datatype text_field = TextAbsent | TextString string | TextOther

datatype audio_field = AudioBytes | AudioInvalid string

text \<open>
  The message of the \<^verbatim>\<open>TypeError\<close> of \<^verbatim>\<open>const { property } = data\<close> for an undefined
  \<^verbatim>\<open>data\<close>.
\<close>

definition destructureError :: "string \<Rightarrow> string" where
  "destructureError property =
     ''Cannot destructure property '' @ [CHR 0x27] @ property @ [CHR 0x27] @ '' of '' @
     [CHR 0x27] @ ''data'' @ [CHR 0x27] @ '' as it is undefined.''"

text \<open>
  \<^verbatim>\<open>socket.on('audio-for-transcription')\<close> up to the call of the transcriber. The
  destructuring comes before the guard, the conversion of the audio after it; an
  exception of either reaches the outer \<^verbatim>\<open>catch\<close>.
\<close>

definition onAudioForTranscription ::
  "string \<Rightarrow> audio_field payload \<Rightarrow> server \<Rightarrow> server \<times> pending option" where
  "onAudioForTranscription sid data st =
     (case data of
        NoPayload \<Rightarrow> (handlerCatch FromAudio sid (destructureError ''audio'') st, None)
      | Payload audio \<Rightarrow>
          (case sessions st sid of
             None \<Rightarrow> (st, None)
           | Some s \<Rightarrow>
               if isProcessing s then (st, None)
               else
                 (case audio of
                    AudioInvalid msg \<Rightarrow> (handlerCatch FromAudio sid msg st, None)
                  | AudioBytes \<Rightarrow>
                      (emit sid (Status ''transcribing'') (setProcessing sid True st),
                       Some AwaitTranscription))))"

text \<open>
  The transcriber has answered: \<open>Inl\<close> an error, \<open>Inr\<close> the text. The code goes on only
  \<^verbatim>\<open>if (transcription.text && transcription.text.trim())\<close>; that \<^verbatim>\<open>if\<close> has no
  \<^verbatim>\<open>else\<close>.
\<close>

definition afterTranscription ::
  "string \<Rightarrow> string + string \<Rightarrow> nat \<Rightarrow> server \<Rightarrow> server \<times> pending option" where
  "afterTranscription sid outcome now st =
     (case outcome of
        Inl msg \<Rightarrow> (handlerCatch FromAudio sid msg st, None)
      | Inr text \<Rightarrow>
          (let st1 = emit sid (TranscriptionResult text) st
           in if text \<noteq> [] \<and> trim text \<noteq> []
              then (emit sid (Status ''thinking'') (pushTurn sid ''user'' text now st1),
                    Some (AwaitReply FromAudio text))
              else (st1, None)))"

text \<open>
  \<^verbatim>\<open>socket.on('text-input')\<close> up to the call of the text generator. The destructuring
  comes before the guard; the guard reads \<^verbatim>\<open>text.trim()\<close> only when the session is
  there and not busy and \<^verbatim>\<open>text\<close> is truthy. An exception of either reaches the outer
  \<^verbatim>\<open>catch\<close>.
\<close>

definition onTextInput ::
  "string \<Rightarrow> text_field payload \<Rightarrow> nat \<Rightarrow> server \<Rightarrow> server \<times> pending option" where
  "onTextInput sid data now st =
     (case data of
        NoPayload \<Rightarrow> (handlerCatch FromText sid (destructureError ''text'') st, None)
      | Payload field \<Rightarrow>
          (case sessions st sid of
             None \<Rightarrow> (st, None)
           | Some s \<Rightarrow>
               if isProcessing s then (st, None)
               else
                 (case field of
                    TextAbsent \<Rightarrow> (st, None)
                  | TextOther \<Rightarrow>
                      (handlerCatch FromText sid ''text.trim is not a function'' st, None)
                  | TextString text \<Rightarrow>
                      if text = [] \<or> trim text = [] then (st, None)
                      else (pushTurn sid ''user'' text now
                              (emit sid (Status ''thinking'') (setProcessing sid True st)),
                            Some (AwaitReply FromText text)))))"

text \<open>
  The standard path: \<^verbatim>\<open>video = videoEmotionMapper.getVideoForEmotion(detectedEmotion)\<close>,
  then the status before the voice is synthesised. An exception of the mapper reaches
  the outer \<^verbatim>\<open>catch\<close>.
\<close>

definition standardVideo ::
  "source \<Rightarrow> string \<Rightarrow> string \<Rightarrow> string \<Rightarrow> string \<Rightarrow> server \<Rightarrow> server \<times> pending option" where
  "standardVideo src sid text response detectedEmotion st =
     (case getVideoForEmotion (videoMapper st) detectedEmotion True 0 of
        Inl msg \<Rightarrow> (handlerCatch src sid msg st, None)
      | Inr v \<Rightarrow>
          (emit sid (Status ''generating-audio'') st,
           Some (AwaitAudio \<lparr> l_source = src, l_text = text, l_response = response,
                              l_detectedEmotion = detectedEmotion, l_video = v,
                              l_customVideo = None \<rparr>)))"

text \<open>
  The text generator has answered (it never throws: it answers with a fallback sentence
  instead). Only \<^verbatim>\<open>text-input\<close> looks for a reset command, and only it announces
  \<^verbatim>\<open>generating-character\<close> when it continues with the active character.
\<close>

definition afterReply ::
  "source \<Rightarrow> string \<Rightarrow> string \<Rightarrow> string \<Rightarrow> nat \<Rightarrow> server \<Rightarrow> server \<times> pending option" where
  "afterReply src sid text response now st =
     (let st1 = pushTurn sid ''assistant'' response now st;
          isResetCommand =
            (src = FromText \<and> list_ex (includesStr (toLowerCase text)) resetCommands);
          st2 = (if isResetCommand
                 then st1\<lparr>activeCustomCharacters := (activeCustomCharacters st1)(sid := None)\<rparr>
                 else st1);
          customCharacterRequest = detectCustomCharacterRequest text;
          detectedEmotion = detectEmotionFromText text response;
          activeCustomChar = activeCustomCharacters st2 sid
      in if truthy customCharacterRequest
         then (emit sid (Status ''generating-character'') st2,
               Some (AwaitCharacter src text response detectedEmotion
                       (case customCharacterRequest of Some d \<Rightarrow> d | None \<Rightarrow> [])))
         else
           (case activeCustomChar of
              None \<Rightarrow> standardVideo src sid text response detectedEmotion st2
            | Some cv \<Rightarrow>
                if cv_description cv \<noteq> [] \<and> \<not> isResetCommand
                then ((if src = FromText then emit sid (Status ''generating-character'') st2
                       else st2),
                      Some (AwaitCharacter src text response detectedEmotion (cv_description cv)))
                else standardVideo src sid text response detectedEmotion st2))"

text \<open>
  \<^verbatim>\<open>getOrCreateVariant\<close> has answered: on success the custom video becomes the active
  character of the socket; on failure, or on an exception, the standard path is taken.
\<close>

definition afterCharacter ::
  "(string \<Rightarrow> string) \<Rightarrow> gen_env \<Rightarrow> source \<Rightarrow> string \<Rightarrow> string \<Rightarrow> string \<Rightarrow> string \<Rightarrow> string \<Rightarrow>
     server \<Rightarrow> server \<times> pending option" where
  "afterCharacter md5hex env src sid text response detectedEmotion description st =
     (case getOrCreateVariant md5hex env detectedEmotion description (generator st) of
        (outcome, g) \<Rightarrow>
          (let st1 = st\<lparr>generator := g\<rparr>
           in case outcome of
                Inl msg \<Rightarrow> standardVideo src sid text response detectedEmotion st1
              | Inr r \<Rightarrow>
                  if res_success r
                  then
                    (let customVideo = \<lparr> cv_url = res_path r, cv_emotion = detectedEmotion,
                                          cv_description = description,
                                          cv_cached = res_cached r \<rparr>;
                         st2 = st1\<lparr>activeCustomCharacters :=
                                      (activeCustomCharacters st1)(sid \<mapsto> customVideo)\<rparr>
                     in (emit sid (Status ''generating-audio'') st2,
                         Some (AwaitAudio \<lparr> l_source = src, l_text = text,
                                            l_response = response,
                                            l_detectedEmotion = detectedEmotion,
                                            l_video = None,
                                            l_customVideo = Some customVideo \<rparr>)))
                  else standardVideo src sid text response detectedEmotion st1))"

definition standardData :: "video option \<Rightarrow> video_data option" where
  "standardData v =
     (case v of
        None \<Rightarrow> None
      | Some x \<Rightarrow> Some (StandardVideo (video_filename x)
                         (''/generated_files/'' @ video_filename x) (video_emotion x)))"

text \<open>\<^verbatim>\<open>customVideo ? customVideo : (video ? {...} : null)\<close>\<close>

definition videoDataOf :: "turn_locals \<Rightarrow> video_data option" where
  "videoDataOf l =
     (case l_customVideo l of
        Some cv \<Rightarrow> Some (CustomVideo cv)
      | None \<Rightarrow> standardData (l_video l))"

definition customCharacterOf :: "turn_locals \<Rightarrow> (string \<times> bool) option" where
  "customCharacterOf l =
     (case l_customVideo l of Some cv \<Rightarrow> Some (cv_description cv, cv_cached cv) | None \<Rightarrow> None)"

definition emotionOf :: "turn_locals \<Rightarrow> string" where
  "emotionOf l = (case l_customVideo l of Some cv \<Rightarrow> cv_emotion cv | None \<Rightarrow> l_detectedEmotion l)"

text \<open>The voice was synthesised: both handlers send the complete bundle.\<close>

definition audioSucceeded :: "string \<Rightarrow> turn_locals \<Rightarrow> string \<Rightarrow> server \<Rightarrow> server" where
  "audioSucceeded sid l audio st =
     (let st1 = emit sid (ConversationComplete
                  \<lparr> cc_transcription = l_text l, cc_response = l_response l,
                    cc_emotion = emotionOf l, cc_audio = Some audio,
                    cc_video = videoDataOf l, cc_customCharacter = customCharacterOf l,
                    cc_error = None \<rparr>) st;
          st2 = broadcast (DisplayContent
                  \<lparr> dc_audio = Some audio, dc_video = videoDataOf l, dc_text = l_response l,
                    dc_emotion = emotionOf l, dc_customCharacter = customCharacterOf l \<rparr>) st1
      in st2\<lparr>conversationsProcessed := Suc (conversationsProcessed st2),
              videosStreamed := (if l_video l \<noteq> None then Suc (videosStreamed st2)
                                 else videosStreamed st2)\<rparr>)"

text \<open>
  The voice failed. \<^verbatim>\<open>text-input\<close> still sends the bundle, without audio and with the
  standard video only; \<^verbatim>\<open>audio-for-transcription\<close> sends an error event instead.
\<close>

definition audioFailed :: "string \<Rightarrow> turn_locals \<Rightarrow> string \<Rightarrow> server \<Rightarrow> server" where
  "audioFailed sid l msg st =
     (case l_source l of
        FromText \<Rightarrow>
          (let st1 = emit sid (ConversationComplete
                       \<lparr> cc_transcription = l_text l, cc_response = l_response l,
                         cc_emotion = l_detectedEmotion l, cc_audio = None,
                         cc_video = standardData (l_video l), cc_customCharacter = None,
                         cc_error = Some ''Failed to generate audio'' \<rparr>) st
           in broadcast (DisplayContent
                       \<lparr> dc_audio = None, dc_video = standardData (l_video l),
                         dc_text = l_response l, dc_emotion = l_detectedEmotion l,
                         dc_customCharacter = None \<rparr>) st1)
      | FromAudio \<Rightarrow> emit sid (ErrorEvent ''Failed to generate audio'' msg) st)"

text \<open>
  The voice synthesiser has answered: \<open>Inl\<close> an error, \<open>Inr\<close> the audio in base 64. Either
  way the handler ends with the idle status and clears the flag.
\<close>

definition afterAudio :: "string \<Rightarrow> turn_locals \<Rightarrow> string + string \<Rightarrow> server \<Rightarrow> server" where
  "afterAudio sid l outcome st =
     (let st1 = (case outcome of
                   Inr audio \<Rightarrow> audioSucceeded sid l audio st
                 | Inl msg \<Rightarrow> audioFailed sid l msg st)
      in setProcessing sid False (emit sid (Status ''idle'') st1))"

text \<open>\<^verbatim>\<open>socket.on('interrupt')\<close> and \<^verbatim>\<open>socket.on('reset')\<close>.\<close>

definition onInterrupt :: "string \<Rightarrow> server \<Rightarrow> server" where
  "onInterrupt sid st =
     (case sessions st sid of
        None \<Rightarrow> st
      | Some s \<Rightarrow> emit sid (Status ''idle'') (setProcessing sid False st))"

definition onReset :: "string \<Rightarrow> server \<Rightarrow> server" where
  "onReset sid st =
     (case sessions st sid of
        None \<Rightarrow> st
      | Some s \<Rightarrow>
          emit sid ResetComplete
            (updateSession sid (\<lambda>s. s\<lparr>conversationHistory := [], isProcessing := False\<rparr>) st))"

text \<open>Connecting, identifying and disconnecting.\<close>

definition onConnection :: "string \<Rightarrow> nat \<Rightarrow> server \<Rightarrow> server" where
  "onConnection sid now st =
     emit sid Config
       (st\<lparr>sessions := (sessions st)(sid \<mapsto>
              \<lparr> conversationHistory = [], isProcessing = False, clientType = ''unknown'' \<rparr>),
           connections := AList.update sid \<lparr> connectedAt = now, isHologram = False \<rparr>
                            (connections st)\<rparr>)"

definition onIdentify :: "string \<Rightarrow> string \<Rightarrow> server \<Rightarrow> server" where
  "onIdentify sid type st =
     (case (sessions st sid, map_of (connections st) sid) of
        (Some s, Some c) \<Rightarrow>
          st\<lparr>sessions := (sessions st)(sid \<mapsto> s\<lparr>clientType := type\<rparr>),
             connections := AList.update sid
                              (c\<lparr>isHologram := (type = ''hologram'' \<or> type = ''mobile'')\<rparr>)
                              (connections st)\<rparr>
      | _ \<Rightarrow> st)"

definition onDisconnect :: "string \<Rightarrow> server \<Rightarrow> server" where
  "onDisconnect sid st =
     st\<lparr>sessions := (sessions st)(sid := None),
        connections := AList.delete sid (connections st)\<rparr>"

text \<open>The server after start-up, with the sample mapper and an empty cache.\<close>

definition initialServer :: server where
  "initialServer =
     \<lparr> sessions = Map.empty, connections = [], activeCustomCharacters = Map.empty,
       generator = emptyCache, videoMapper = exampleMapper,
       conversationsProcessed = 0, videosStreamed = 0, emitted = [] \<rparr>"

section \<open>The server: runs and traces\<close>

text \<open>
  The answer of a collaborator resumes the run at the stage that waits for it. Events
  that arrive while a run waits (an interrupt, a reset, another submission) are handled
  on the state in between; the run keeps what it waits for.
\<close>

datatype answer =
    Transcribed "string + string"
  | Replied string
  | CharacterDone gen_env
  | AudioDone "string + string"

definition resume ::
  "(string \<Rightarrow> string) \<Rightarrow> string \<Rightarrow> answer \<Rightarrow> nat \<Rightarrow> server \<times> pending option \<Rightarrow>
     server \<times> pending option" where
  "resume md5hex sid ans now run =
     (case (snd run, ans) of
        (Some AwaitTranscription, Transcribed outcome) \<Rightarrow>
          afterTranscription sid outcome now (fst run)
      | (Some (AwaitReply src text), Replied response) \<Rightarrow>
          afterReply src sid text response now (fst run)
      | (Some (AwaitCharacter src text response detectedEmotion description), CharacterDone env) \<Rightarrow>
          afterCharacter md5hex env src sid text response detectedEmotion description (fst run)
      | (Some (AwaitAudio l), AudioDone outcome) \<Rightarrow> (afterAudio sid l outcome (fst run), None)
      | _ \<Rightarrow> run)"

definition meanwhile :: "(server \<Rightarrow> server) \<Rightarrow> server \<times> pending option \<Rightarrow> server \<times> pending option" where
  "meanwhile handler run = (handler (fst run), snd run)"

definition isBusy :: "string \<Rightarrow> server \<Rightarrow> bool" where
  "isBusy sid st = (case sessions st sid of None \<Rightarrow> False | Some s \<Rightarrow> isProcessing s)"

text \<open>
  Sample traces. Socket \<^verbatim>\<open>a\<close> talks, socket \<^verbatim>\<open>h\<close> has identified itself as a mobile
  display.
\<close>

definition connected :: server where
  "connected =
     onIdentify ''h'' ''mobile'' (onConnection ''h'' 0 (onConnection ''a'' 0 initialServer))"

text \<open>An audio submission in which the transcriber hears nothing.\<close>

definition silentAudio :: "server \<times> pending option" where
  "silentAudio =
     resume exampleDigest ''a'' (Transcribed (Inr ''  '')) 10
       (onAudioForTranscription ''a'' (Payload AudioBytes) connected)"

text \<open>
  A text submission that is accepted, and a second one that arrives after an interrupt,
  while the first run still waits for the text generator.
\<close>

definition firstRun :: "server \<times> pending option" where
  "firstRun = onTextInput ''a'' (Payload (TextString ''hello'')) 10 connected"

definition secondRun :: "server \<times> pending option" where
  "secondRun =
     onTextInput ''a'' (Payload (TextString ''again'')) 20 (onInterrupt ''a'' (fst firstRun))"

text \<open>A text turn that is interrupted while the text generator works.\<close>

definition interruptedRun :: "server \<times> pending option" where
  "interruptedRun =
     resume exampleDigest ''a'' (AudioDone (Inr ''QUJD'')) 30
       (resume exampleDigest ''a'' (Replied ''Hi there!'') 20
          (meanwhile (onInterrupt ''a'')
             (onTextInput ''a'' (Payload (TextString ''hello'')) 10 connected)))"

text \<open>
  A text turn that asks for a character: up to the call of the generator, and when the
  character has been generated and the run waits for the voice.
\<close>

definition pirateAsked :: "server \<times> pending option" where
  "pirateAsked =
     resume exampleDigest ''a'' (Replied ''Arr!'') 20
       (onTextInput ''a'' (Payload (TextString ''be a pirate'')) 10 connected)"

definition pirateRun :: "server \<times> pending option" where
  "pirateRun =
     resume exampleDigest ''a'' (CharacterDone (exampleEnv ''2024-09-01T10:00:00.000Z'')) 30
       pirateAsked"

text \<open>
  An audio turn and a text turn up to the call of the voice synthesiser, and the audio
  turn when that call fails.
\<close>

definition audioTurnAwaitingVoice :: "server \<times> pending option" where
  "audioTurnAwaitingVoice =
     resume exampleDigest ''a'' (Replied ''Hi there!'') 30
       (resume exampleDigest ''a'' (Transcribed (Inr ''hello'')) 20
          (onAudioForTranscription ''a'' (Payload AudioBytes) connected))"

definition textTurnAwaitingVoice :: "server \<times> pending option" where
  "textTurnAwaitingVoice =
     resume exampleDigest ''a'' (Replied ''Hi there!'') 20
       (onTextInput ''a'' (Payload (TextString ''hello'')) 10 connected)"

definition audioTurnVoiceFails :: "server \<times> pending option" where
  "audioTurnVoiceFails =
     resume exampleDigest ''a'' (AudioDone (Inl ''quota exceeded'')) 40 audioTurnAwaitingVoice"

definition helloLocals :: "source \<Rightarrow> turn_locals" where
  "helloLocals src =
     \<lparr> l_source = src, l_text = ''hello'', l_response = ''Hi there!'',
       l_detectedEmotion = ''neutral'', l_video = Some neutralVideo, l_customVideo = None \<rparr>"

section \<open>Theorems: fingerprints\<close>

lemma normalizeKey_append: "normalizeKey (a @ b) = normalizeKey a @ normalizeKey b"
  by (simp add: normalizeKey_def toLowerCase_def)

text \<open>
  Normalisation works code unit by code unit, so two pairs whose emotions and whose
  descriptions have equal normal forms also have equal joined normal forms.
\<close>

lemma normalized_components:
  "normalizeKey e1 = normalizeKey e2 \<Longrightarrow> normalizeKey d1 = normalizeKey d2 \<Longrightarrow>
   normalized e1 d1 = normalized e2 d2"
  using normalizeKey_append [of e1 "CHR ''_'' # d1"] normalizeKey_append [of e2 "CHR ''_'' # d2"]
    normalizeKey_append [of "''_''" d1] normalizeKey_append [of "''_''" d2]
  by (simp add: normalized_def)

lemma cacheKey_of_normalized:
  "normalized e1 d1 = normalized e2 d2 \<Longrightarrow>
   generateCacheKey md5hex e1 d1 = generateCacheKey md5hex e2 d2"
  by (simp add: generateCacheKey_def)

text \<open>Normalising twice is normalising once, so a key can be computed from normal forms.\<close>

lemma toLowerChar_lowerAlnum: "isLowerAlnum c \<Longrightarrow> toLowerChar c = c"
  by (auto simp: isLowerAlnum_def toLowerChar_def Let_def)

lemma normalizeKey_idem: "normalizeKey (normalizeKey s) = normalizeKey s"
proof (induction s)
  case Nil
  show ?case by (simp add: normalizeKey_def toLowerCase_def)
next
  case (Cons c s)
  have u: "toLowerChar CHR ''_'' = CHR ''_''" "\<not> isLowerAlnum CHR ''_''"
    by (simp_all add: toLowerChar_def isLowerAlnum_def)
  from Cons u show ?case
    by (auto simp: normalizeKey_def toLowerCase_def toLowerChar_lowerAlnum)
qed

lemma generateCacheKey_renormalized:
  "generateCacheKey md5hex (normalizeKey e) (normalizeKey d) = generateCacheKey md5hex e d"
  by (rule cacheKey_of_normalized, rule normalized_components) (simp_all add: normalizeKey_idem)

text \<open>
  C3. The fingerprint is a function of the normalised input alone: whatever the digest
  function is, two (emotion, description) pairs get the same cache key when their joined
  normal forms are equal (lower case, every code unit outside a-z and 0-9 replaced by an
  underscore), and so also when the normal forms of their emotions and of their
  descriptions are equal. In particular the same pair always gets the same key.
\<close>

theorem generateCacheKey_normalized:
  assumes "normalized e1 d1 = normalized e2 d2 \<or>
           (normalizeKey e1 = normalizeKey e2 \<and> normalizeKey d1 = normalizeKey d2)"
  shows "generateCacheKey md5hex e1 d1 = generateCacheKey md5hex e2 d2"
proof -
  from assms have "normalized e1 d1 = normalized e2 d2"
    using normalized_components by blast
  then show ?thesis by (rule cacheKey_of_normalized)
qed

theorem generateCacheKey_normalized_witness:
  "normalized ''Happy'' ''Cow Boy!'' = normalized ''happy'' ''cow-boy?'' \<and>
   normalizeKey ''Happy'' = normalizeKey ''happy'' \<and>
   normalizeKey ''Cow Boy!'' = normalizeKey ''cow-boy?'' \<and>
   (\<forall>md5hex. generateCacheKey md5hex ''Happy'' ''Cow Boy!'' =
              generateCacheKey md5hex ''happy'' ''cow-boy?'')"
proof -
  have h: "normalized ''Happy'' ''Cow Boy!'' = normalized ''happy'' ''cow-boy?''"
    by code_simp
  have e: "normalizeKey ''Happy'' = normalizeKey ''happy''" by code_simp
  have d: "normalizeKey ''Cow Boy!'' = normalizeKey ''cow-boy?''" by code_simp
  from h have "normalized ''Happy'' ''Cow Boy!'' = normalized ''happy'' ''cow-boy?'' \<or>
     (normalizeKey ''Happy'' = normalizeKey ''happy'' \<and>
      normalizeKey ''Cow Boy!'' = normalizeKey ''cow-boy?'')" by (rule disjI1)
  from generateCacheKey_normalized [OF this] h e d show ?thesis by simp
qed

section \<open>Theorems: parsing a request\<close>

lemma keywordLoop_fst:
  "fst (keywordLoop p e kws st) = e \<or> fst (keywordLoop p e kws st) = fst st"
  by (induction kws) auto

lemma emotionLoop_fst:
  "fst (emotionLoop p tbl st) \<in> insert (fst st) (set (map fst tbl))"
proof (induction tbl arbitrary: st)
  case Nil
  then show ?case by simp
next
  case (Cons a tbl)
  obtain e kws where a: "a = (e, kws)" by (cases a)
  have k: "fst (keywordLoop p e kws st) = e \<or> fst (keywordLoop p e kws st) = fst st"
    by (rule keywordLoop_fst)
  show ?case
    using Cons.IH [of "keywordLoop p e kws st"] k
    by (auto simp: a Let_def)
qed

text \<open>
  C10. For every prompt, \<^verbatim>\<open>parseUserRequest\<close> returns one of the eight emotions
  joy, anger, fear, disgust, anxiety, sadness, calm, neutral, and a description that is
  not empty: it is \<^verbatim>\<open>'character'\<close> when removing the matched keyword, a leading
  article and the extra white space leaves nothing, and the cleaned text otherwise.
\<close>

theorem parseUserRequest_result:
  "req_emotion (parseUserRequest p) \<in>
     set [''joy'', ''anger'', ''fear'', ''disgust'', ''anxiety'', ''sadness'', ''calm'', ''neutral'']
   \<and> req_customDescription (parseUserRequest p) \<noteq> []
   \<and> (cleanDescription (snd (detectEmotion p)) = [] \<longrightarrow>
        req_customDescription (parseUserRequest p) = ''character'')
   \<and> (cleanDescription (snd (detectEmotion p)) \<noteq> [] \<longrightarrow>
        req_customDescription (parseUserRequest p) = cleanDescription (snd (detectEmotion p)))"
proof -
  have "fst (detectEmotion p) \<in> insert ''neutral'' (set (map fst emotionKeywords))"
    unfolding detectEmotion_def
    using emotionLoop_fst [of p emotionKeywords "(''neutral'', p)"] by simp
  then have "req_emotion (parseUserRequest p) \<in>
     set [''joy'', ''anger'', ''fear'', ''disgust'', ''anxiety'', ''sadness'', ''calm'', ''neutral'']"
    by (auto simp: parseUserRequest_def Let_def emotionKeywords_def)
  then show ?thesis
    by (simp add: parseUserRequest_def Let_def)
qed

theorem parseUserRequest_result_witness:
  "cleanDescription (snd (detectEmotion '' Happy  '')) = [] \<and>
   parseUserRequest '' Happy  '' = \<lparr> req_emotion = ''joy'', req_customDescription = ''character'' \<rparr> \<and>
   cleanDescription (snd (detectEmotion ''the sad  clown'')) \<noteq> [] \<and>
   parseUserRequest ''the sad  clown'' = \<lparr> req_emotion = ''sadness'', req_customDescription = ''clown'' \<rparr>"
proof -
  have a: "cleanDescription (snd (detectEmotion '' Happy  '')) = []" by code_simp
  have b: "req_emotion (parseUserRequest '' Happy  '') = ''joy''" by code_simp
  have c: "cleanDescription (snd (detectEmotion ''the sad  clown'')) = ''clown''" by code_simp
  have d: "req_emotion (parseUserRequest ''the sad  clown'') = ''sadness''" by code_simp
  show ?thesis
    using a b c d parseUserRequest_result [of "'' Happy  ''"]
      parseUserRequest_result [of "''the sad  clown''"]
    by (cases "parseUserRequest '' Happy  ''"; cases "parseUserRequest ''the sad  clown''") simp
qed

section \<open>Theorems: the asset cache\<close>

lemma checkCache_hit:
  "manifest st (generateCacheKey md5hex e d) = Some ent \<Longrightarrow> entry_filename ent \<in> files st \<Longrightarrow>
   checkCache md5hex err e d st = (Inr (Some (variantPath (entry_filename ent), ent)), st)"
  by (simp add: checkCache_def Let_def)

lemma checkCache_hit_state:
  "checkCache md5hex err e d st = (Inr (Some hit), st') \<Longrightarrow>
   st' = st \<and> manifest st (generateCacheKey md5hex e d) = Some (snd hit) \<and>
   entry_filename (snd hit) \<in> files st \<and> fst hit = variantPath (entry_filename (snd hit))"
  by (auto simp: checkCache_def Let_def saveManifest_def split: option.splits if_splits sum.splits)

lemma generateVariant_success:
  "generateVariant md5hex env e d st = (r, st') \<Longrightarrow> gen_success r \<Longrightarrow>
   (\<exists>ent. manifest st' (generateCacheKey md5hex e d) = Some ent \<and>
      entry_filename ent \<in> files st' \<and>
      gen_path r = Some (variantPath (entry_filename ent)) \<and> gen_metadata r = Some ent)"
  by (auto simp: generateVariant_def Let_def saveManifest_def generationFailed_def
      split: option.splits api_outcome.splits sum.splits)

text \<open>
  A call that reports success leaves the fingerprint in the manifest with its file in the
  cache directory, whether it was served from the cache or generated.
\<close>

lemma getOrCreateVariant_success:
  assumes "getOrCreateVariant md5hex env e d st = (Inr r, st')" and "res_success r"
  shows "\<exists>ent. manifest st' (generateCacheKey md5hex e d) = Some ent \<and>
      entry_filename ent \<in> files st' \<and>
      res_path r = Some (variantPath (entry_filename ent)) \<and> res_metadata r = Some ent"
proof (cases "checkCache md5hex (env_evictSaveError env) e d st")
  case (Pair a c)
  show ?thesis
  proof (cases a)
    case (Inl msg)
    with Pair assms show ?thesis by (simp add: getOrCreateVariant_def)
  next
    case (Inr h)
    show ?thesis
    proof (cases h)
      case None
      obtain g c' where g: "generateVariant md5hex env e d c = (g, c')"
        by (cases "generateVariant md5hex env e d c")
      with Pair Inr None assms have r: "r = generatedResult g" "st' = c'"
        by (auto simp: getOrCreateVariant_def)
      with assms have "gen_success g" by (simp add: generatedResult_def)
      from generateVariant_success [OF g this] r show ?thesis
        by (auto simp: generatedResult_def)
    next
      case (Some hit)
      with Pair Inr assms have r: "r = cachedResult hit" "st' = c"
        by (auto simp: getOrCreateVariant_def)
      from checkCache_hit_state [of md5hex "env_evictSaveError env" e d st hit c] Pair Inr Some r
      show ?thesis by (auto simp: cachedResult_def)
    qed
  qed
qed

text \<open>
  C1. After a call of \<^verbatim>\<open>getOrCreateVariant\<close> that succeeded, a second call with the same
  emotion and description (whatever the collaborators would answer this time) is served
  from the cache: it is tagged \<^verbatim>\<open>cached: true\<close>, leaves the state as it is, and its path
  is the path of the first call, built from the file name that the manifest records.
\<close>

theorem getOrCreateVariant_second_call_cached:
  assumes "getOrCreateVariant md5hex env1 e d st = (Inr r1, st1)" and "res_success r1"
  shows "\<exists>ent. manifest st1 (generateCacheKey md5hex e d) = Some ent \<and>
      res_path r1 = Some (variantPath (entry_filename ent)) \<and>
      getOrCreateVariant md5hex env2 e d st1 =
        (Inr \<lparr> res_success = True, res_cached = True,
               res_path = Some (variantPath (entry_filename ent)),
               res_metadata = Some ent, res_error = None \<rparr>, st1)"
proof -
  from getOrCreateVariant_success [OF assms] obtain ent where
    ent: "manifest st1 (generateCacheKey md5hex e d) = Some ent"
      "entry_filename ent \<in> files st1"
      "res_path r1 = Some (variantPath (entry_filename ent))" by blast
  have "getOrCreateVariant md5hex env2 e d st1 =
        (Inr (cachedResult (variantPath (entry_filename ent), ent)), st1)"
    by (simp add: getOrCreateVariant_def checkCache_hit [OF ent(1) ent(2)])
  with ent show ?thesis by (auto simp: cachedResult_def)
qed


lemma first_call:
  "fst (getOrCreateVariant exampleDigest (exampleEnv ''2024-09-01T10:00:00.000Z'') ''joy'' ''pirate'' emptyCache)
   = Inr \<lparr> res_success = True, res_cached = False,
       res_path = Some ''/videos/custom_variants/joy_pirate_0f1e2d3c_2024-09-01T10-00-00-000Z.mp4'',
       res_metadata = Some \<lparr> entry_emotion = ''joy'', entry_customDescription = ''pirate'',
          entry_prompt = buildCustomPrompt ''joy'' ''pirate'',
          entry_filename = ''joy_pirate_0f1e2d3c_2024-09-01T10-00-00-000Z.mp4'',
          entry_generatedAt = ''2024-09-01T10:00:00.000Z'',
          entry_videoUrl = ''https://v.example/clip.mp4'' \<rparr>, res_error = None \<rparr>"
  by (simp add: getOrCreateVariant_def checkCache_def generateVariant_def emptyCache_def exampleEnv_def
      Let_def generateCacheKey_def normalized_def normalizeKey_def toLowerCase_def toLowerChar_def isLowerAlnum_def
      exampleDigest_def extractVideoUrl_def truthy_def saveManifest_def fileTimestamp_def variantPath_def generatedResult_def)

theorem getOrCreateVariant_second_call_cached_witness:
  "\<exists>r1 st1. getOrCreateVariant exampleDigest (exampleEnv ''2024-09-01T10:00:00.000Z'')
                ''joy'' ''pirate'' emptyCache = (Inr r1, st1) \<and>
     res_success r1 \<and> \<not> res_cached r1 \<and>
     (\<exists>r2. getOrCreateVariant exampleDigest (exampleEnv ''2024-09-01T10:05:00.000Z'')
                ''joy'' ''pirate'' st1 = (Inr r2, st1) \<and>
        res_cached r2 \<and> res_path r2 = res_path r1 \<and>
        res_path r2 =
          Some ''/videos/custom_variants/joy_pirate_0f1e2d3c_2024-09-01T10-00-00-000Z.mp4'')"
proof -
  obtain a st1 where p: "getOrCreateVariant exampleDigest (exampleEnv ''2024-09-01T10:00:00.000Z'')
                ''joy'' ''pirate'' emptyCache = (a, st1)"
    by (cases "getOrCreateVariant exampleDigest (exampleEnv ''2024-09-01T10:00:00.000Z'')
                ''joy'' ''pirate'' emptyCache")
  with first_call obtain r1 where r1: "a = Inr r1" "res_success r1" "\<not> res_cached r1"
    "res_path r1 = Some ''/videos/custom_variants/joy_pirate_0f1e2d3c_2024-09-01T10-00-00-000Z.mp4''"
    by simp
  from p r1 have q: "getOrCreateVariant exampleDigest (exampleEnv ''2024-09-01T10:00:00.000Z'')
                ''joy'' ''pirate'' emptyCache = (Inr r1, st1)" by simp
  from getOrCreateVariant_second_call_cached [OF q r1(2), of "exampleEnv ''2024-09-01T10:05:00.000Z''"]
  show ?thesis using q r1 by auto
qed

lemma stepCall_simps:
  "stepCall md5hex sys (i, env) =
     (if length (calls sys) \<le> i then sys
         else
           (case calls sys ! i of
              NotStarted e d \<Rightarrow>
                (case checkCache md5hex (env_evictSaveError env) e d (cache sys) of
                   (Inl msg, c) \<Rightarrow> sys\<lparr>cache := c, calls := (calls sys)[i := Thrown msg]\<rparr>
                 | (Inr (Some hit), c) \<Rightarrow>
                     sys\<lparr>cache := c, calls := (calls sys)[i := Returned (cachedResult hit)]\<rparr>
                 | (Inr None, c) \<Rightarrow>
                     sys\<lparr>cache := c, calls := (calls sys)[i := Generating e d]\<rparr>)
            | Generating e d \<Rightarrow>
                (case generateVariant md5hex env e d (cache sys) of
                   (r, c) \<Rightarrow>
                     sys\<lparr>cache := c, calls := (calls sys)[i := Returned (generatedResult r)],
                         generations := Suc (generations sys)\<rparr>)
            | Returned r \<Rightarrow> sys
            | Thrown msg \<Rightarrow> sys))"
  by (simp add: stepCall_def Let_def)

text \<open>
  C2 (amended). Two calls for the same fingerprint that do not overlap, the second
  starting after the first has returned with success, invoke generation at most once,
  and the second is served from the cache with the path of the first.
\<close>

theorem sequential_calls_generate_once:
  assumes run: "sys' = runCalls md5hex [(0, env1), (0, env2), (1, env3), (1, env4)]
             \<lparr> cache = st, calls = [NotStarted e d, NotStarted e d], generations = 0 \<rparr>"
    and ret: "calls sys' ! 0 = Returned r1" and ok: "res_success r1"
  shows "generations sys' \<le> 1 \<and>
     (\<exists>r2. calls sys' ! 1 = Returned r2 \<and> res_success r2 \<and> res_cached r2 \<and>
        res_path r2 = res_path r1)"
proof (cases "checkCache md5hex (env_evictSaveError env1) e d st")
  case (Pair a c)
  show ?thesis
  proof (cases a)
    case (Inl msg)
    with Pair run ret show ?thesis
      by (simp add: runCalls_def stepCall_simps split: prod.splits sum.splits option.splits)
  next
    case (Inr h)
    show ?thesis
    proof (cases h)
      case (Some hit)
      from checkCache_hit_state [of md5hex "env_evictSaveError env1" e d st hit c] Pair Inr Some
      have h: "c = st" "manifest st (generateCacheKey md5hex e d) = Some (snd hit)"
        "entry_filename (snd hit) \<in> files st" "fst hit = variantPath (entry_filename (snd hit))"
        by auto
      from Pair Inr Some run ret h show ?thesis
        by (auto simp: runCalls_def stepCall_simps checkCache_hit [OF h(2) h(3)] cachedResult_def)
    next
      case None
      obtain g c' where g: "generateVariant md5hex env2 e d c = (g, c')"
        by (cases "generateVariant md5hex env2 e d c")
      from Pair Inr None run ret g have r1: "r1 = generatedResult g"
        by (simp add: runCalls_def stepCall_simps split: prod.splits sum.splits option.splits)
      with ok have "gen_success g" by (simp add: generatedResult_def)
      from generateVariant_success [OF g this] obtain ent where
        ent: "manifest c' (generateCacheKey md5hex e d) = Some ent"
        "entry_filename ent \<in> files c'" "gen_path g = Some (variantPath (entry_filename ent))"
        by blast
      from Pair Inr None run g r1 ent show ?thesis
        by (auto simp: runCalls_def stepCall_simps checkCache_hit [OF ent(1) ent(2)]
            cachedResult_def generatedResult_def)
    qed
  qed
qed

text \<open>
  C2 as stated fails: nothing coordinates two calls that overlap. When both calls look
  the fingerprint up before either has generated, both miss, generation is invoked twice
  and two files are written.
\<close>

theorem overlapping_calls_generate_twice:
  "generations (runCalls exampleDigest
      [(0, exampleEnv ''2024-09-01T10:00:00.000Z''), (1, exampleEnv ''2024-09-01T10:00:01.000Z''),
       (0, exampleEnv ''2024-09-01T10:00:00.000Z''), (1, exampleEnv ''2024-09-01T10:00:01.000Z'')]
      twoCalls) = 2 \<and>
   files (cache (runCalls exampleDigest
      [(0, exampleEnv ''2024-09-01T10:00:00.000Z''), (1, exampleEnv ''2024-09-01T10:00:01.000Z''),
       (0, exampleEnv ''2024-09-01T10:00:00.000Z''), (1, exampleEnv ''2024-09-01T10:00:01.000Z'')]
      twoCalls)) =
     {''joy_pirate_0f1e2d3c_2024-09-01T10-00-00-000Z.mp4'',
      ''joy_pirate_0f1e2d3c_2024-09-01T10-00-01-000Z.mp4''}"
  by (simp add: runCalls_def stepCall_simps twoCalls_def checkCache_def generateVariant_def emptyCache_def exampleEnv_def
      Let_def generateCacheKey_def normalized_def normalizeKey_def toLowerCase_def toLowerChar_def isLowerAlnum_def
      exampleDigest_def extractVideoUrl_def truthy_def saveManifest_def fileTimestamp_def variantPath_def generatedResult_def
      insert_commute)

theorem sequential_calls_generate_once_witness:
  "\<exists>sys' r1. sys' = runCalls exampleDigest
      [(0, exampleEnv ''2024-09-01T10:00:00.000Z''), (0, exampleEnv ''2024-09-01T10:00:00.000Z''),
       (1, exampleEnv ''2024-09-01T10:00:01.000Z''), (1, exampleEnv ''2024-09-01T10:00:01.000Z'')]
      \<lparr> cache = emptyCache, calls = [NotStarted ''joy'' ''pirate'', NotStarted ''joy'' ''pirate''],
        generations = 0 \<rparr> \<and>
     calls sys' ! 0 = Returned r1 \<and> res_success r1 \<and> generations sys' \<le> 1 \<and>
     (\<exists>r2. calls sys' ! 1 = Returned r2 \<and> res_success r2 \<and> res_cached r2 \<and>
        res_path r2 = res_path r1)"
proof -
  define sys' where "sys' = runCalls exampleDigest
      [(0, exampleEnv ''2024-09-01T10:00:00.000Z''), (0, exampleEnv ''2024-09-01T10:00:00.000Z''),
       (1, exampleEnv ''2024-09-01T10:00:01.000Z''), (1, exampleEnv ''2024-09-01T10:00:01.000Z'')]
      \<lparr> cache = emptyCache, calls = [NotStarted ''joy'' ''pirate'', NotStarted ''joy'' ''pirate''],
        generations = 0 \<rparr>"
  have "\<exists>r1. calls sys' ! 0 = Returned r1 \<and> res_success r1"
    unfolding sys'_def
    by (simp add: runCalls_def stepCall_simps checkCache_def generateVariant_def emptyCache_def exampleEnv_def
      Let_def generateCacheKey_def normalized_def normalizeKey_def toLowerCase_def toLowerChar_def isLowerAlnum_def
      exampleDigest_def extractVideoUrl_def truthy_def saveManifest_def fileTimestamp_def variantPath_def generatedResult_def
      cachedResult_def)
  then obtain r1 where r1: "calls sys' ! 0 = Returned r1" "res_success r1" by blast
  from sequential_calls_generate_once [OF sys'_def r1] r1 sys'_def show ?thesis by blast
qed

section \<open>Theorems: the emotion resolver\<close>

lemma firstAvailable_Some:
  "firstAvailable idx fbs = Some ws \<Longrightarrow>
   ws \<noteq> [] \<and> (\<exists>before f after. fbs = before @ f # after \<and> idx f = Some ws \<and>
      list_all (\<lambda>g. idx g = None \<or> idx g = Some []) before)"
proof (induction fbs)
  case Nil
  then show ?case by simp
next
  case (Cons a fbs)
  show ?case
  proof (cases "idx a = None \<or> idx a = Some []")
    case True
    with Cons.prems have "firstAvailable idx fbs = Some ws" by auto
    from Cons.IH [OF this] obtain before f after where
      h: "ws \<noteq> []" "fbs = before @ f # after" "idx f = Some ws"
         "list_all (\<lambda>g. idx g = None \<or> idx g = Some []) before" by blast
    from h True have "a # fbs = (a # before) @ f # after \<and> idx f = Some ws \<and>
        list_all (\<lambda>g. idx g = None \<or> idx g = Some []) (a # before)" by simp
    with h(1) show ?thesis by blast
  next
    case False
    then obtain v vs where v: "idx a = Some (v # vs)"
      by (cases "idx a") (auto simp: neq_Nil_conv)
    with Cons.prems have ws: "ws = v # vs" by simp
    with v have "a # fbs = [] @ a # fbs \<and> idx a = Some ws \<and>
        list_all (\<lambda>g. idx g = None \<or> idx g = Some []) []" by simp
    with ws show ?thesis by blast
  qed
qed

lemma firstAvailable_None:
  "firstAvailable idx fbs = None \<Longrightarrow> list_all (\<lambda>g. idx g = None \<or> idx g = Some []) fbs"
  by (induction fbs) (auto split: option.splits list.splits)

lemma pickVideo_member:
  "videos \<noteq> [] \<Longrightarrow> \<exists>w. pickVideo preferRecent rnd videos = Some w \<and> w \<in> set videos \<and>
     (preferRecent \<longrightarrow> w = hd videos)"
proof (cases videos)
  case Nil
  assume "videos \<noteq> []"
  with Nil show ?thesis by simp
next
  case (Cons v vs)
  have "(v # vs) ! randomIndex rnd (length (v # vs)) \<in> set (v # vs)"
    unfolding randomIndex_def by (rule nth_mem) simp
  with Cons show ?thesis by (auto simp: pickVideo_def)
qed

lemma pickVideo_take1: "pickVideo preferRecent rnd (take 1 videos) = (case videos of [] \<Rightarrow> None | a # _ \<Rightarrow> Some a)"
  by (cases videos) (simp_all add: pickVideo_def randomIndex_def)

lemma getFallbackVideos_own:
  "emotion \<notin> set objectPrototypeKeys \<Longrightarrow>
   getFallbackVideos m emotion = Inr (walkFallbacks m (fallbacksOf emotion))"
  by (simp add: getFallbackVideos_def fallbacksOf_def split: option.splits)

text \<open>
  On an initialised mapper, and for an emotion whose lower-case form is not a name that
  the table inherits, \<^verbatim>\<open>getVideoForEmotion\<close> returns a video of the emotion when one
  is indexed, else a video of the first fallback emotion that has one, else the most
  recent video of all, else \<^verbatim>\<open>null\<close>.
\<close>

lemma getVideoForEmotion_resolves:
  assumes "initialized m" and "toLowerCase emotion \<notin> set objectPrototypeKeys"
  shows "getVideoForEmotion m emotion preferRecent rnd =
     Inr (pickVideo preferRecent rnd
       (case emotionVideoMap m (toLowerCase emotion) of
          Some (v # vs) \<Rightarrow> v # vs
        | _ \<Rightarrow> walkFallbacks m (fallbacksOf (toLowerCase emotion))))"
  using assms
  by (simp add: getVideoForEmotion_def getFallbackVideos_own Let_def split: option.splits list.splits)

text \<open>
  C8. The claim holds for the emotions above, not for every emotion: for
  \<^verbatim>\<open>constructor\<close> and \<^verbatim>\<open>__proto__\<close> (reachable through
  \<^verbatim>\<open>GET /api/videos/:emotion\<close>) the lookup in the fallback table finds an inherited
  value instead of \<^verbatim>\<open>['neutral']\<close>, and the function throws instead of falling back to
  the neutral video, which an unknown emotion such as \<^verbatim>\<open>nostalgia\<close> gets.
\<close>

theorem getVideoForEmotion_inherited_key:
  "getVideoForEmotion exampleMapper ''constructor'' True 0 = Inl ''fallbacks is not iterable'' \<and>
   getVideoForEmotion exampleMapper ''__proto__'' True 0 = Inl ''fallbacks is not iterable'' \<and>
   getVideoForEmotion exampleMapper ''nostalgia'' True 0 = Inr (Some neutralVideo)"
  by (simp add: getVideoForEmotion_def exampleMapper_def buildEmotionMap_def neutralVideo_def
      getFallbackVideos_def fallbackMap_def objectPrototypeKeys_def walkFallbacks_def
      toLowerCase_def toLowerChar_def Let_def pickVideo_def)

section \<open>Theorems: the server\<close>

lemma sessions_emit [simp]: "sessions (emit sid ev st) = sessions st"
  by (simp add: emit_def)

lemma emitted_emit [simp]: "emitted (emit sid ev st) = emitted st @ [(sid, ev)]"
  by (simp add: emit_def)

lemma hologramConnections_emit [simp]: "hologramConnections (emit sid ev st) = hologramConnections st"
  by (simp add: emit_def hologramConnections_def)

lemma emitted_updateSession [simp]: "emitted (updateSession sid f st) = emitted st"
  by (simp add: updateSession_def split: option.splits)

lemma hologramConnections_updateSession [simp]:
  "hologramConnections (updateSession sid f st) = hologramConnections st"
  by (simp add: updateSession_def hologramConnections_def split: option.splits)

lemma activeCustomCharacters_updateSession [simp]:
  "activeCustomCharacters (updateSession sid f st) = activeCustomCharacters st"
  by (simp add: updateSession_def split: option.splits)

lemma activeCustomCharacters_emit [simp]:
  "activeCustomCharacters (emit sid ev st) = activeCustomCharacters st"
  by (simp add: emit_def)

lemma sessions_broadcast [simp]: "sessions (broadcast ev st) = sessions st"
  by (simp add: broadcast_def)

lemma emitted_broadcast [simp]:
  "emitted (broadcast ev st) = emitted st @ map (\<lambda>h. (h, ev)) (hologramConnections st)"
  by (simp add: broadcast_def)

lemma isBusy_emit [simp]: "isBusy sid (emit sid' ev st) = isBusy sid st"
  by (simp add: isBusy_def)

lemma isBusy_broadcast [simp]: "isBusy sid (broadcast ev st) = isBusy sid st"
  by (simp add: isBusy_def)

lemma isBusy_pushTurn [simp]: "isBusy sid (pushTurn sid' role content now st) = isBusy sid st"
  by (simp add: isBusy_def pushTurn_def updateSession_def split: option.splits)

lemma isBusy_setProcessing_False [simp]: "\<not> isBusy sid (setProcessing sid False st)"
  by (simp add: isBusy_def setProcessing_def updateSession_def split: option.splits)

lemma isBusy_activeCustomCharacters [simp]:
  "isBusy sid (st\<lparr>activeCustomCharacters := x\<rparr>) = isBusy sid st"
  by (simp add: isBusy_def)

lemma isBusy_generator [simp]: "isBusy sid (st\<lparr>generator := g\<rparr>) = isBusy sid st"
  by (simp add: isBusy_def)

text \<open>
  The busy flag through a run. A submission with a payload is dropped while the flag is
  set, and sets it when it is accepted. A stage that goes on with the run leaves the flag
  as it is; a stage that ends the run through the outer \<^verbatim>\<open>catch\<close>, and the last stage,
  clear it. An interrupt and a reset clear it from outside the run.
\<close>

lemma onTextInput_busy: "isBusy sid st \<Longrightarrow> onTextInput sid (Payload field) now st = (st, None)"
  by (auto simp: onTextInput_def isBusy_def split: option.splits)

lemma onAudioForTranscription_busy:
  "isBusy sid st \<Longrightarrow> onAudioForTranscription sid (Payload audio) st = (st, None)"
  by (auto simp: onAudioForTranscription_def isBusy_def split: option.splits)

lemma isBusy_setProcessing_True:
  "sessions st sid = Some s \<Longrightarrow> isBusy sid (setProcessing sid True st)"
  by (simp add: isBusy_def setProcessing_def updateSession_def)

lemma onTextInput_accepted:
  assumes "sessions st sid = Some s" and "\<not> isProcessing s" and "trim input \<noteq> []"
  shows "snd (onTextInput sid (Payload (TextString input)) now st) = Some (AwaitReply FromText input)"
    and "isBusy sid (fst (onTextInput sid (Payload (TextString input)) now st))"
proof -
  from assms(3) have "input \<noteq> []" by (auto simp: trim_def)
  with assms show
    "snd (onTextInput sid (Payload (TextString input)) now st) = Some (AwaitReply FromText input)"
    "isBusy sid (fst (onTextInput sid (Payload (TextString input)) now st))"
    by (simp_all add: onTextInput_def isBusy_setProcessing_True)
qed

lemma handlerCatch_idle: "\<not> isBusy sid (handlerCatch src sid msg st)"
  by (simp add: handlerCatch_def Let_def)

lemma standardVideo_flag:
  "isBusy sid (fst (standardVideo src sid input response e st)) =
     (isBusy sid st \<and> snd (standardVideo src sid input response e st) \<noteq> None)"
  by (simp add: standardVideo_def handlerCatch_idle split: sum.splits)

lemma afterReply_flag:
  "isBusy sid (fst (afterReply src sid input response now st)) =
     (isBusy sid st \<and> snd (afterReply src sid input response now st) \<noteq> None)"
  by (simp add: afterReply_def Let_def standardVideo_flag split: option.splits)

lemma afterCharacter_flag:
  "isBusy sid (fst (afterCharacter md5hex env src sid input response e d st)) =
     (isBusy sid st \<and> snd (afterCharacter md5hex env src sid input response e d st) \<noteq> None)"
  by (simp add: afterCharacter_def Let_def standardVideo_flag split: prod.splits sum.splits)

lemma afterAudio_idle: "\<not> isBusy sid (afterAudio sid l outcome st)"
  by (simp add: afterAudio_def Let_def)

lemma onInterrupt_idle: "\<not> isBusy sid (onInterrupt sid st)"
  by (simp add: onInterrupt_def isBusy_def setProcessing_def updateSession_def emit_def
      split: option.splits)

lemma onReset_idle: "\<not> isBusy sid (onReset sid st)"
  by (simp add: onReset_def isBusy_def updateSession_def emit_def split: option.splits)

text \<open>
  C5 as stated fails: the flag is not held for the whole run. A text submission is
  accepted and its run waits for the text generator; an interrupt clears the flag while
  that run is in flight; a second submission is then accepted, so that two runs of the
  session are in flight and the history holds both user turns.
\<close>

theorem interrupted_session_accepts_second_run:
  "snd firstRun = Some (AwaitReply FromText ''hello'') \<and>
   isBusy ''a'' (fst firstRun) \<and>
   \<not> isBusy ''a'' (onInterrupt ''a'' (fst firstRun)) \<and>
   snd secondRun = Some (AwaitReply FromText ''again'') \<and>
   sessions (fst secondRun) ''a'' =
     Some \<lparr> conversationHistory =
              [\<lparr> turn_role = ''user'', turn_content = ''hello'', turn_timestamp = 10 \<rparr>,
               \<lparr> turn_role = ''user'', turn_content = ''again'', turn_timestamp = 20 \<rparr>],
            isProcessing = True, clientType = ''unknown'' \<rparr>"
  by code_simp

text \<open>
  C5 (amended). While the busy flag of a session is set, a text submission that carries
  a payload does nothing: the state is returned as it is (so the history, the flag and
  the events emitted are unchanged) and no stage runs. An accepted submission sets the
  flag; every stage of its run that goes on with the run leaves the flag as it is, and
  the stage that ends the run clears it. The flag is not held for the whole run: an
  interrupt or a reset clears it whatever is in flight, and the next submission is then
  accepted.
\<close>

theorem busy_text_input_is_noop:
  "(isBusy sid st \<longrightarrow> onTextInput sid (Payload field) now st = (st, None)) \<and>
   (sessions st sid = Some s \<and> \<not> isProcessing s \<and> trim input \<noteq> [] \<longrightarrow>
      snd (onTextInput sid (Payload (TextString input)) now st) = Some (AwaitReply FromText input) \<and>
      isBusy sid (fst (onTextInput sid (Payload (TextString input)) now st))) \<and>
   isBusy sid (fst (afterReply src sid input response now st)) =
     (isBusy sid st \<and> snd (afterReply src sid input response now st) \<noteq> None) \<and>
   isBusy sid (fst (afterCharacter md5hex env src sid input response e d st)) =
     (isBusy sid st \<and> snd (afterCharacter md5hex env src sid input response e d st) \<noteq> None) \<and>
   \<not> isBusy sid (afterAudio sid l outcome st) \<and>
   \<not> isBusy sid (onInterrupt sid st) \<and>
   \<not> isBusy sid (onReset sid st)"
  using onTextInput_busy [of sid st field now] onTextInput_accepted [of st sid s input now]
    afterReply_flag [of sid src input response now st]
    afterCharacter_flag [of sid md5hex env src input response e d st]
    afterAudio_idle [of sid l outcome st] onInterrupt_idle [of sid st] onReset_idle [of sid st]
  by blast

lemma first_run_session:
  "sessions (fst firstRun) ''a'' =
     Some \<lparr> conversationHistory =
              [\<lparr> turn_role = ''user'', turn_content = ''hello'', turn_timestamp = 10 \<rparr>],
            isProcessing = True, clientType = ''unknown'' \<rparr>"
  by code_simp

lemma interrupted_session:
  "sessions (onInterrupt ''a'' (fst firstRun)) ''a'' =
     Some \<lparr> conversationHistory =
              [\<lparr> turn_role = ''user'', turn_content = ''hello'', turn_timestamp = 10 \<rparr>],
            isProcessing = False, clientType = ''unknown'' \<rparr>"
  by code_simp

lemma reply_goes_on:
  "snd (afterReply FromText ''a'' ''hello'' ''Hi there!'' 20 (fst firstRun)) =
     Some (AwaitAudio (helloLocals FromText))"
  by code_simp

lemma character_asked:
  "isBusy ''a'' (fst pirateAsked) \<and>
   snd pirateAsked = Some (AwaitCharacter FromText ''be a pirate'' ''Arr!'' ''neutral'' ''pirate'')"
  by code_simp

lemma character_goes_on:
  "snd (afterCharacter exampleDigest (exampleEnv ''2024-09-01T10:00:00.000Z'') FromText ''a''
          ''be a pirate'' ''Arr!'' ''neutral'' ''pirate'' (fst pirateAsked)) \<noteq> None"
  by code_simp

theorem busy_text_input_is_noop_witness:
  "isBusy ''a'' (fst firstRun) \<and>
   onTextInput ''a'' (Payload (TextString ''again'')) 20 (fst firstRun) = (fst firstRun, None) \<and>
   isBusy ''a'' (fst (afterReply FromText ''a'' ''hello'' ''Hi there!'' 20 (fst firstRun))) \<and>
   isBusy ''a'' (fst (afterCharacter exampleDigest (exampleEnv ''2024-09-01T10:00:00.000Z'')
                        FromText ''a'' ''be a pirate'' ''Arr!'' ''neutral'' ''pirate''
                        (fst pirateAsked))) \<and>
   \<not> isBusy ''a'' (afterAudio ''a'' (helloLocals FromText) (Inr ''QUJD'') (fst firstRun)) \<and>
   \<not> isBusy ''a'' (onInterrupt ''a'' (fst firstRun)) \<and>
   trim ''again'' \<noteq> [] \<and>
   snd (onTextInput ''a'' (Payload (TextString ''again'')) 20 (onInterrupt ''a'' (fst firstRun))) =
     Some (AwaitReply FromText ''again'') \<and>
   isBusy ''a'' (fst (onTextInput ''a'' (Payload (TextString ''again'')) 20
                        (onInterrupt ''a'' (fst firstRun))))"
proof -
  have busy: "isBusy ''a'' (fst firstRun)"
    using first_run_session by (simp add: isBusy_def)
  note B = busy_text_input_is_noop [where sid = "''a''" and st = "fst firstRun"
      and field = "TextString ''again''" and now = 20 and src = FromText
      and input = "''hello''" and response = "''Hi there!''"
      and l = "helloLocals FromText" and outcome = "Inr ''QUJD''"]
  from B busy have a: "onTextInput ''a'' (Payload (TextString ''again'')) 20 (fst firstRun) =
      (fst firstRun, None)" by blast
  from B busy reply_goes_on
  have b: "isBusy ''a'' (fst (afterReply FromText ''a'' ''hello'' ''Hi there!'' 20 (fst firstRun)))"
    by simp
  from B have e: "\<not> isBusy ''a'' (afterAudio ''a'' (helloLocals FromText) (Inr ''QUJD'') (fst firstRun))"
    by blast
  from B have f: "\<not> isBusy ''a'' (onInterrupt ''a'' (fst firstRun))" by blast
  note P = busy_text_input_is_noop [where sid = "''a''" and st = "fst pirateAsked"
      and md5hex = exampleDigest and env = "exampleEnv ''2024-09-01T10:00:00.000Z''"
      and src = FromText and input = "''be a pirate''" and response = "''Arr!''"
      and e = "''neutral''" and d = "''pirate''"]
  from P character_asked character_goes_on
  have c: "isBusy ''a'' (fst (afterCharacter exampleDigest (exampleEnv ''2024-09-01T10:00:00.000Z'')
                        FromText ''a'' ''be a pirate'' ''Arr!'' ''neutral'' ''pirate''
                        (fst pirateAsked)))"
    by simp
  have t: "trim ''again'' \<noteq> []" by code_simp
  note I = busy_text_input_is_noop [where sid = "''a''" and st = "onInterrupt ''a'' (fst firstRun)"
      and s = "\<lparr> conversationHistory =
              [\<lparr> turn_role = ''user'', turn_content = ''hello'', turn_timestamp = 10 \<rparr>],
            isProcessing = False, clientType = ''unknown'' \<rparr>"
      and input = "''again''" and now = 20]
  from I interrupted_session t
  have g: "snd (onTextInput ''a'' (Payload (TextString ''again'')) 20 (onInterrupt ''a'' (fst firstRun))) =
     Some (AwaitReply FromText ''again'') \<and>
     isBusy ''a'' (fst (onTextInput ''a'' (Payload (TextString ''again'')) 20
                        (onInterrupt ''a'' (fst firstRun))))"
    by simp
  from busy a b c e f t g show ?thesis by (intro conjI) simp_all
qed

text \<open>
  A \<^verbatim>\<open>text-input\<close> event without a payload is not dropped: the destructuring throws
  before the guard, and the outer \<^verbatim>\<open>catch\<close> clears the flag of the session, busy or
  not, and emits an error event and the idle status.
\<close>

lemma missing_payload_clears_flag:
  "onTextInput sid NoPayload now st = (handlerCatch FromText sid (destructureError ''text'') st, None) \<and>
   \<not> isBusy sid (fst (onTextInput sid NoPayload now st)) \<and>
   emitted (fst (onTextInput sid NoPayload now st)) =
     emitted st @ [(sid, ErrorEvent ''Failed to process text'' (destructureError ''text'')),
                   (sid, Status ''idle'')]"
proof (intro conjI)
  show "onTextInput sid NoPayload now st =
      (handlerCatch FromText sid (destructureError ''text'') st, None)"
    by (simp add: onTextInput_def)
  then show "\<not> isBusy sid (fst (onTextInput sid NoPayload now st))"
    by (simp add: handlerCatch_idle)
  show "emitted (fst (onTextInput sid NoPayload now st)) =
     emitted st @ [(sid, ErrorEvent ''Failed to process text'' (destructureError ''text'')),
                   (sid, Status ''idle'')]"
    by (simp add: onTextInput_def handlerCatch_def Let_def setProcessing_def)
qed

text \<open>
  When the transcriber returns an empty text, or white space only, the handler emits the
  transcription result and returns: nothing else is emitted and the state is not touched.
\<close>

lemma afterTranscription_silent:
  "text = [] \<or> trim text = [] \<Longrightarrow>
   afterTranscription sid (Inr text) now st = (emit sid (TranscriptionResult text) st, None)"
  by (auto simp: afterTranscription_def Let_def)

text \<open>
  C4. The claim fails on the code. After an audio submission whose transcription is two
  spaces the run has ended and no \<^verbatim>\<open>conversation-complete\<close> was emitted, as claimed; but
  the busy flag is still set and no idle status was sent, so the next text submission of
  the session is dropped.
\<close>

theorem silent_audio_leaves_session_busy:
  "snd silentAudio = None \<and> isBusy ''a'' (fst silentAudio) \<and>
   emitted (fst silentAudio) =
     [(''a'', Config), (''h'', Config), (''a'', Status ''transcribing''),
      (''a'', TranscriptionResult ''  '')] \<and>
   onTextInput ''a'' (Payload (TextString ''hello'')) 20 (fst silentAudio) = (fst silentAudio, None)"
proof -
  have a: "snd silentAudio = None" by code_simp
  have b: "isBusy ''a'' (fst silentAudio)" by code_simp
  have c: "emitted (fst silentAudio) =
     [(''a'', Config), (''h'', Config), (''a'', Status ''transcribing''),
      (''a'', TranscriptionResult ''  '')]" by code_simp
  from a b c onTextInput_busy [OF b] show ?thesis by simp
qed

text \<open>
  C6 as stated fails: a text turn is interrupted while the text generator works; when the
  reply and the voice arrive, \<^verbatim>\<open>conversation-complete\<close> and \<^verbatim>\<open>display-content\<close> are
  emitted all the same, after the idle status of the interrupt.
\<close>

theorem interrupted_run_still_broadcasts:
  "emitted (fst interruptedRun) =
     [(''a'', Config), (''h'', Config), (''a'', Status ''thinking''),
      (''a'', Status ''idle''), (''a'', Status ''generating-audio''),
      (''a'', ConversationComplete
         \<lparr> cc_transcription = ''hello'', cc_response = ''Hi there!'', cc_emotion = ''neutral'',
           cc_audio = Some ''QUJD'',
           cc_video = Some (StandardVideo ''neutral_20240901_100000.mp4''
                       ''/generated_files/neutral_20240901_100000.mp4'' ''neutral''),
           cc_customCharacter = None, cc_error = None \<rparr>),
      (''h'', DisplayContent
         \<lparr> dc_audio = Some ''QUJD'',
           dc_video = Some (StandardVideo ''neutral_20240901_100000.mp4''
                       ''/generated_files/neutral_20240901_100000.mp4'' ''neutral''),
           dc_text = ''Hi there!'', dc_emotion = ''neutral'', dc_customCharacter = None \<rparr>),
      (''a'', Status ''idle'')]"
  by code_simp

lemma emitted_setProcessing: "emitted (setProcessing sid b st) = emitted st"
  by (simp add: setProcessing_def)

lemma onInterrupt_effect:
  "sessions st sid = Some s \<Longrightarrow>
   onInterrupt sid st =
     st\<lparr>sessions := (sessions st)(sid \<mapsto> s\<lparr>isProcessing := False\<rparr>),
        emitted := emitted st @ [(sid, Status ''idle'')]\<rparr>"
  by (simp add: onInterrupt_def setProcessing_def updateSession_def emit_def)

lemma emitted_audioSucceeded:
  "emitted (audioSucceeded sid l audio st) =
     emitted st @
     [(sid, ConversationComplete
         \<lparr> cc_transcription = l_text l, cc_response = l_response l, cc_emotion = emotionOf l,
           cc_audio = Some audio, cc_video = videoDataOf l,
           cc_customCharacter = customCharacterOf l, cc_error = None \<rparr>)] @
     map (\<lambda>h. (h, DisplayContent
         \<lparr> dc_audio = Some audio, dc_video = videoDataOf l, dc_text = l_response l,
           dc_emotion = emotionOf l, dc_customCharacter = customCharacterOf l \<rparr>))
       (hologramConnections st)"
  by (simp add: audioSucceeded_def Let_def)

lemma hologramConnections_onInterrupt [simp]:
  "hologramConnections (onInterrupt sid st) = hologramConnections st"
  by (simp add: onInterrupt_def setProcessing_def split: option.splits)

text \<open>
  What a pending run does next depends on the mapper, the generator and the active
  characters, none of which an interrupt changes.
\<close>

lemma videoMapper_emit [simp]: "videoMapper (emit sid ev st) = videoMapper st"
  by (simp add: emit_def)

lemma videoMapper_updateSession [simp]: "videoMapper (updateSession sid f st) = videoMapper st"
  by (simp add: updateSession_def split: option.splits)

lemma generator_emit [simp]: "generator (emit sid ev st) = generator st"
  by (simp add: emit_def)

lemma generator_updateSession [simp]: "generator (updateSession sid f st) = generator st"
  by (simp add: updateSession_def split: option.splits)

lemma onInterrupt_frame:
  "videoMapper (onInterrupt sid st) = videoMapper st"
  "generator (onInterrupt sid st) = generator st"
  "activeCustomCharacters (onInterrupt sid st) = activeCustomCharacters st"
  by (simp_all add: onInterrupt_def setProcessing_def split: option.splits)

lemma standardVideo_pending:
  "videoMapper st' = videoMapper st \<Longrightarrow>
   snd (standardVideo src sid text response e st') = snd (standardVideo src sid text response e st)"
  by (simp add: standardVideo_def split: sum.splits)

lemma afterReply_pending:
  assumes "videoMapper st' = videoMapper st"
    and "activeCustomCharacters st' = activeCustomCharacters st"
  shows "snd (afterReply src sid text response now st') =
         snd (afterReply src sid text response now st)"
  using assms
  by (auto simp: afterReply_def Let_def pushTurn_def split: option.splits
      intro!: standardVideo_pending)

lemma afterCharacter_pending:
  assumes "videoMapper st' = videoMapper st" and "generator st' = generator st"
  shows "snd (afterCharacter md5hex env src sid text response e d st') =
         snd (afterCharacter md5hex env src sid text response e d st)"
  using assms
  by (auto simp: afterCharacter_def Let_def split: prod.splits sum.splits
      intro!: standardVideo_pending)

text \<open>
  C6 (amended). An interrupt clears the busy flag of the session and emits the idle
  status at once, and changes nothing else. It does not cancel the run in flight, and no
  stage checks a token: the run goes on to the same next stage as without the interrupt,
  and when the voice of the interrupted run arrives, the bundle is emitted to the
  session and broadcast to every display.
\<close>

theorem interrupt_clears_flag_only:
  assumes "sessions st sid = Some s"
  shows "onInterrupt sid st =
       st\<lparr>sessions := (sessions st)(sid \<mapsto> s\<lparr>isProcessing := False\<rparr>),
          emitted := emitted st @ [(sid, Status ''idle'')]\<rparr> \<and>
     snd (afterReply src sid input response now (onInterrupt sid st)) =
       snd (afterReply src sid input response now st) \<and>
     snd (afterCharacter md5hex env src sid input response e d (onInterrupt sid st)) =
       snd (afterCharacter md5hex env src sid input response e d st) \<and>
     emitted (afterAudio sid l (Inr audio) (onInterrupt sid st)) =
       emitted st @
       [(sid, Status ''idle''),
        (sid, ConversationComplete
           \<lparr> cc_transcription = l_text l, cc_response = l_response l, cc_emotion = emotionOf l,
             cc_audio = Some audio, cc_video = videoDataOf l,
             cc_customCharacter = customCharacterOf l, cc_error = None \<rparr>)] @
       map (\<lambda>h. (h, DisplayContent
           \<lparr> dc_audio = Some audio, dc_video = videoDataOf l, dc_text = l_response l,
             dc_emotion = emotionOf l, dc_customCharacter = customCharacterOf l \<rparr>))
         (hologramConnections st) @
       [(sid, Status ''idle'')]"
proof (intro conjI)
  show "onInterrupt sid st =
       st\<lparr>sessions := (sessions st)(sid \<mapsto> s\<lparr>isProcessing := False\<rparr>),
          emitted := emitted st @ [(sid, Status ''idle'')]\<rparr>"
    using assms by (rule onInterrupt_effect)
next
  show "snd (afterReply src sid input response now (onInterrupt sid st)) =
       snd (afterReply src sid input response now st)"
    by (rule afterReply_pending) (simp_all add: onInterrupt_frame)
next
  show "snd (afterCharacter md5hex env src sid input response e d (onInterrupt sid st)) =
       snd (afterCharacter md5hex env src sid input response e d st)"
    by (rule afterCharacter_pending) (simp_all add: onInterrupt_frame)
next
  have "emitted (onInterrupt sid st) = emitted st @ [(sid, Status ''idle'')]"
    using assms by (simp add: onInterrupt_effect)
  then show "emitted (afterAudio sid l (Inr audio) (onInterrupt sid st)) =
       emitted st @
       [(sid, Status ''idle''),
        (sid, ConversationComplete
           \<lparr> cc_transcription = l_text l, cc_response = l_response l, cc_emotion = emotionOf l,
             cc_audio = Some audio, cc_video = videoDataOf l,
             cc_customCharacter = customCharacterOf l, cc_error = None \<rparr>)] @
       map (\<lambda>h. (h, DisplayContent
           \<lparr> dc_audio = Some audio, dc_video = videoDataOf l, dc_text = l_response l,
             dc_emotion = emotionOf l, dc_customCharacter = customCharacterOf l \<rparr>))
         (hologramConnections st) @
       [(sid, Status ''idle'')]"
    by (simp add: afterAudio_def Let_def emitted_setProcessing emitted_audioSucceeded)
qed

lemma busy_session:
  "sessions (fst (onTextInput ''a'' (Payload (TextString ''hello'')) 10 connected)) ''a'' =
     Some \<lparr> conversationHistory =
              [\<lparr> turn_role = ''user'', turn_content = ''hello'', turn_timestamp = 10 \<rparr>],
            isProcessing = True, clientType = ''unknown'' \<rparr>"
  by code_simp

lemma busy_emitted:
  "emitted (fst (onTextInput ''a'' (Payload (TextString ''hello'')) 10 connected)) =
     [(''a'', Config), (''h'', Config), (''a'', Status ''thinking'')]"
  by code_simp

lemma busy_holograms:
  "hologramConnections (fst (onTextInput ''a'' (Payload (TextString ''hello'')) 10 connected)) = [''h'']"
  by code_simp

theorem interrupt_clears_flag_only_witness:
  "sessions (fst (onTextInput ''a'' (Payload (TextString ''hello'')) 10 connected)) ''a'' =
     Some \<lparr> conversationHistory =
              [\<lparr> turn_role = ''user'', turn_content = ''hello'', turn_timestamp = 10 \<rparr>],
            isProcessing = True, clientType = ''unknown'' \<rparr> \<and>
   \<not> isBusy ''a'' (onInterrupt ''a'' (fst (onTextInput ''a'' (Payload (TextString ''hello'')) 10 connected))) \<and>
   snd (afterReply FromText ''a'' ''hello'' ''Hi there!'' 20
          (onInterrupt ''a'' (fst (onTextInput ''a'' (Payload (TextString ''hello'')) 10 connected)))) =
     Some (AwaitAudio (helloLocals FromText)) \<and>
   emitted (afterAudio ''a'' (helloLocals FromText) (Inr ''QUJD'')
              (onInterrupt ''a'' (fst (onTextInput ''a'' (Payload (TextString ''hello'')) 10 connected)))) =
     [(''a'', Config), (''h'', Config), (''a'', Status ''thinking''), (''a'', Status ''idle''),
      (''a'', ConversationComplete
         \<lparr> cc_transcription = ''hello'', cc_response = ''Hi there!'', cc_emotion = ''neutral'',
           cc_audio = Some ''QUJD'',
           cc_video = Some (StandardVideo ''neutral_20240901_100000.mp4''
                       ''/generated_files/neutral_20240901_100000.mp4'' ''neutral''),
           cc_customCharacter = None, cc_error = None \<rparr>),
      (''h'', DisplayContent
         \<lparr> dc_audio = Some ''QUJD'',
           dc_video = Some (StandardVideo ''neutral_20240901_100000.mp4''
                       ''/generated_files/neutral_20240901_100000.mp4'' ''neutral''),
           dc_text = ''Hi there!'', dc_emotion = ''neutral'', dc_customCharacter = None \<rparr>),
      (''a'', Status ''idle'')]"
proof -
  note T = interrupt_clears_flag_only [OF busy_session,
      where l = "helloLocals FromText" and audio = "''QUJD''" and src = FromText
        and input = "''hello''" and response = "''Hi there!''" and now = 20]
  have idle: "\<not> isBusy ''a'' (onInterrupt ''a'' (fst (onTextInput ''a'' (Payload (TextString ''hello'')) 10 connected)))"
    by (simp add: T [THEN conjunct1] isBusy_def)
  have "snd (afterReply FromText ''a'' ''hello'' ''Hi there!'' 20
          (fst (onTextInput ''a'' (Payload (TextString ''hello'')) 10 connected))) = Some (AwaitAudio (helloLocals FromText))"
    by code_simp
  with T [THEN conjunct2, THEN conjunct1]
  have next_stage: "snd (afterReply FromText ''a'' ''hello'' ''Hi there!'' 20
          (onInterrupt ''a'' (fst (onTextInput ''a'' (Payload (TextString ''hello'')) 10 connected)))) =
     Some (AwaitAudio (helloLocals FromText))"
    by simp
  from T [THEN conjunct2, THEN conjunct2, THEN conjunct2]
  have "emitted (afterAudio ''a'' (helloLocals FromText) (Inr ''QUJD'')
              (onInterrupt ''a'' (fst (onTextInput ''a'' (Payload (TextString ''hello'')) 10 connected)))) =
     [(''a'', Config), (''h'', Config), (''a'', Status ''thinking''), (''a'', Status ''idle''),
      (''a'', ConversationComplete
         \<lparr> cc_transcription = ''hello'', cc_response = ''Hi there!'', cc_emotion = ''neutral'',
           cc_audio = Some ''QUJD'',
           cc_video = Some (StandardVideo ''neutral_20240901_100000.mp4''
                       ''/generated_files/neutral_20240901_100000.mp4'' ''neutral''),
           cc_customCharacter = None, cc_error = None \<rparr>),
      (''h'', DisplayContent
         \<lparr> dc_audio = Some ''QUJD'',
           dc_video = Some (StandardVideo ''neutral_20240901_100000.mp4''
                       ''/generated_files/neutral_20240901_100000.mp4'' ''neutral''),
           dc_text = ''Hi there!'', dc_emotion = ''neutral'', dc_customCharacter = None \<rparr>),
      (''a'', Status ''idle'')]"
    by (simp add: busy_emitted busy_holograms helloLocals_def emotionOf_def videoDataOf_def
        customCharacterOf_def standardData_def neutralVideo_def)
  with busy_session idle next_stage show ?thesis by (intro conjI)
qed

text \<open>
  C7 as stated fails: a reset that arrives while a turn waits for the voice (the session
  is busy, a custom character is active) is carried out, and the active custom character
  is still there afterwards.
\<close>

theorem reset_while_busy_keeps_character:
  "isBusy ''a'' (fst pirateRun) \<and>
   activeCustomCharacters (fst pirateRun) ''a'' =
     Some \<lparr> cv_url = Some ''/videos/custom_variants/neutral_pirate_0f1e2d3c_2024-09-01T10-00-00-000Z.mp4'',
            cv_emotion = ''neutral'', cv_description = ''pirate'', cv_cached = False \<rparr> \<and>
   activeCustomCharacters (onReset ''a'' (fst pirateRun)) ''a'' =
     Some \<lparr> cv_url = Some ''/videos/custom_variants/neutral_pirate_0f1e2d3c_2024-09-01T10-00-00-000Z.mp4'',
            cv_emotion = ''neutral'', cv_description = ''pirate'', cv_cached = False \<rparr> \<and>
   sessions (onReset ''a'' (fst pirateRun)) ''a'' =
     Some \<lparr> conversationHistory = [], isProcessing = False, clientType = ''unknown'' \<rparr>"
  by code_simp

text \<open>
  C7 (amended). In every state of the session, busy or not, a reset empties the
  conversation history, clears the busy flag and emits \<^verbatim>\<open>reset-complete\<close>; it changes
  nothing else, and the active custom characters are left as they are.
\<close>

theorem reset_effect:
  assumes "sessions st sid = Some s"
  shows "onReset sid st =
       st\<lparr>sessions := (sessions st)(sid \<mapsto> s\<lparr>conversationHistory := [], isProcessing := False\<rparr>),
          emitted := emitted st @ [(sid, ResetComplete)]\<rparr> \<and>
     activeCustomCharacters (onReset sid st) = activeCustomCharacters st"
  using assms by (simp add: onReset_def updateSession_def emit_def)

lemma pirate_session:
  "sessions (fst pirateRun) ''a'' =
     Some \<lparr> conversationHistory =
              [\<lparr> turn_role = ''user'', turn_content = ''be a pirate'', turn_timestamp = 10 \<rparr>,
               \<lparr> turn_role = ''assistant'', turn_content = ''Arr!'', turn_timestamp = 20 \<rparr>],
            isProcessing = True, clientType = ''unknown'' \<rparr>"
  by code_simp

theorem reset_effect_witness:
  "sessions (fst pirateRun) ''a'' =
     Some \<lparr> conversationHistory =
              [\<lparr> turn_role = ''user'', turn_content = ''be a pirate'', turn_timestamp = 10 \<rparr>,
               \<lparr> turn_role = ''assistant'', turn_content = ''Arr!'', turn_timestamp = 20 \<rparr>],
            isProcessing = True, clientType = ''unknown'' \<rparr> \<and>
   sessions (onReset ''a'' (fst pirateRun)) ''a'' =
     Some \<lparr> conversationHistory = [], isProcessing = False, clientType = ''unknown'' \<rparr> \<and>
   emitted (onReset ''a'' (fst pirateRun)) = emitted (fst pirateRun) @ [(''a'', ResetComplete)] \<and>
   activeCustomCharacters (onReset ''a'' (fst pirateRun)) = activeCustomCharacters (fst pirateRun)"
  using reset_effect [OF pirate_session] pirate_session by simp

text \<open>
  The events of a failed voice synthesis, for every turn. A text turn gets the bundle
  without audio and with the annotation, and it is broadcast to every display; the
  bundle carries the reply text, the detected emotion and the standard video of the
  turn, if it has one. An audio turn gets an error event. Either way the idle status
  follows and the busy flag is cleared.
\<close>

lemma emitted_audioFailed_text:
  "l_source l = FromText \<Longrightarrow>
   emitted (audioFailed sid l msg st) =
     emitted st @
     [(sid, ConversationComplete
         \<lparr> cc_transcription = l_text l, cc_response = l_response l,
           cc_emotion = l_detectedEmotion l, cc_audio = None,
           cc_video = standardData (l_video l), cc_customCharacter = None,
           cc_error = Some ''Failed to generate audio'' \<rparr>)] @
     map (\<lambda>h. (h, DisplayContent
         \<lparr> dc_audio = None, dc_video = standardData (l_video l), dc_text = l_response l,
           dc_emotion = l_detectedEmotion l, dc_customCharacter = None \<rparr>))
       (hologramConnections st)"
  by (simp add: audioFailed_def Let_def)

lemma emitted_audioFailed_audio:
  "l_source l = FromAudio \<Longrightarrow>
   emitted (audioFailed sid l msg st) =
     emitted st @ [(sid, ErrorEvent ''Failed to generate audio'' msg)]"
  by (simp add: audioFailed_def)

lemma voice_failure_events:
  "(l_source l = FromText \<longrightarrow>
      emitted (afterAudio sid l (Inl msg) st) =
        emitted st @
        [(sid, ConversationComplete
            \<lparr> cc_transcription = l_text l, cc_response = l_response l,
              cc_emotion = l_detectedEmotion l, cc_audio = None,
              cc_video = standardData (l_video l), cc_customCharacter = None,
              cc_error = Some ''Failed to generate audio'' \<rparr>)] @
        map (\<lambda>h. (h, DisplayContent
            \<lparr> dc_audio = None, dc_video = standardData (l_video l), dc_text = l_response l,
              dc_emotion = l_detectedEmotion l, dc_customCharacter = None \<rparr>))
          (hologramConnections st) @
        [(sid, Status ''idle'')]) \<and>
   (l_source l = FromAudio \<longrightarrow>
      emitted (afterAudio sid l (Inl msg) st) =
        emitted st @ [(sid, ErrorEvent ''Failed to generate audio'' msg), (sid, Status ''idle'')]) \<and>
   \<not> isBusy sid (afterAudio sid l (Inl msg) st)"
  by (simp add: afterAudio_def Let_def emitted_setProcessing emitted_audioFailed_text
      emitted_audioFailed_audio)

text \<open>
  A text turn with a standard video whose voice synthesis fails: the bundle is sent
  without audio and with the annotation, as the claim says.
\<close>

lemma text_turn_voice_failure_sends_bundle:
  "snd textTurnAwaitingVoice = Some (AwaitAudio (helloLocals FromText)) \<and>
   emitted (afterAudio ''a'' (helloLocals FromText) (Inl ''quota exceeded'')
              (fst textTurnAwaitingVoice)) =
     [(''a'', Config), (''h'', Config), (''a'', Status ''thinking''),
      (''a'', Status ''generating-audio''),
      (''a'', ConversationComplete
         \<lparr> cc_transcription = ''hello'', cc_response = ''Hi there!'', cc_emotion = ''neutral'',
           cc_audio = None,
           cc_video = Some (StandardVideo ''neutral_20240901_100000.mp4''
                       ''/generated_files/neutral_20240901_100000.mp4'' ''neutral''),
           cc_customCharacter = None, cc_error = Some ''Failed to generate audio'' \<rparr>),
      (''h'', DisplayContent
         \<lparr> dc_audio = None,
           dc_video = Some (StandardVideo ''neutral_20240901_100000.mp4''
                       ''/generated_files/neutral_20240901_100000.mp4'' ''neutral''),
           dc_text = ''Hi there!'', dc_emotion = ''neutral'', dc_customCharacter = None \<rparr>),
      (''a'', Status ''idle'')]"
  by code_simp

text \<open>
  In a text turn that had resolved a custom character, the bundle sent after a failed
  voice synthesis carries no video at all.
\<close>

lemma voice_failure_drops_custom_video:
  "snd pirateRun = Some (AwaitAudio
      \<lparr> l_source = FromText, l_text = ''be a pirate'', l_response = ''Arr!'',
        l_detectedEmotion = ''neutral'', l_video = None,
        l_customVideo = Some
          \<lparr> cv_url = Some ''/videos/custom_variants/neutral_pirate_0f1e2d3c_2024-09-01T10-00-00-000Z.mp4'',
            cv_emotion = ''neutral'', cv_description = ''pirate'', cv_cached = False \<rparr> \<rparr>) \<and>
   emitted (fst (resume exampleDigest ''a'' (AudioDone (Inl ''quota exceeded'')) 40 pirateRun)) =
     [(''a'', Config), (''h'', Config), (''a'', Status ''thinking''),
      (''a'', Status ''generating-character''), (''a'', Status ''generating-audio''),
      (''a'', ConversationComplete
         \<lparr> cc_transcription = ''be a pirate'', cc_response = ''Arr!'', cc_emotion = ''neutral'',
           cc_audio = None, cc_video = None, cc_customCharacter = None,
           cc_error = Some ''Failed to generate audio'' \<rparr>),
      (''h'', DisplayContent
         \<lparr> dc_audio = None, dc_video = None, dc_text = ''Arr!'', dc_emotion = ''neutral'',
           dc_customCharacter = None \<rparr>),
      (''a'', Status ''idle'')]"
  by code_simp

text \<open>
  C9. The claim fails on the code in an audio turn. The run has reached the voice
  synthesiser (the pending stage carries the reply and the neutral video); when the
  synthesis fails, the session gets an error event and the idle status: no
  \<^verbatim>\<open>conversation-complete\<close> is emitted and nothing is broadcast to the display, so the
  reply text and the video are withheld.
\<close>

theorem audio_turn_voice_failure_sends_error:
  "snd audioTurnAwaitingVoice = Some (AwaitAudio (helloLocals FromAudio)) \<and>
   hologramConnections (fst audioTurnAwaitingVoice) = [''h''] \<and>
   emitted (fst audioTurnVoiceFails) =
     [(''a'', Config), (''h'', Config), (''a'', Status ''transcribing''),
      (''a'', TranscriptionResult ''hello''), (''a'', Status ''thinking''),
      (''a'', Status ''generating-audio''),
      (''a'', ErrorEvent ''Failed to generate audio'' ''quota exceeded''),
      (''a'', Status ''idle'')]"
  by code_simp

end
